theory Spec2Isabelle
  imports Complex_Main
begin


section \<open>The Python runtime, as far as the converter uses it\<close>

text \<open>
  The converter (\<^verbatim>\<open>convert_apple_workouts.py\<close>) is a class \<^verbatim>\<open>AppleWorkoutConverter\<close>
  whose methods read an Apple Health export, build one TCX document per workout and
  write it. Every method is embedded below under its own name. A Python exception
  is a value: a computation that may raise returns \<open>fault + 'a\<close>, with \<open>Inl\<close> the
  exception.
\<close>

datatype fault =
  ValueError | TypeError | AttributeError | OverflowError | ParseError | OSError

definition result_bind :: "fault + 'a \<Rightarrow> ('a \<Rightarrow> fault + 'b) \<Rightarrow> fault + 'b" where
  "result_bind r f = (case r of Inl e \<Rightarrow> Inl e | Inr v \<Rightarrow> f v)"

subsection \<open>Floats\<close>

text \<open>
  A Python float is a finite value, an infinity or NaN. Finite values are kept as exact
  rationals: rounding is outside the model, and no statement below depends on it.
  What the converter does with a float is: test its truth value (\<^verbatim>\<open>if x:\<close> is false
  exactly for zero; NaN is true), multiply or divide it by a positive constant, truncate
  it with \<^verbatim>\<open>int(x)\<close> (which raises on NaN and on an infinity) and print it.
\<close>

datatype pyfloat = Finite rat | PosInf | NegInf | NaN

definition float_truthy :: "pyfloat \<Rightarrow> bool" where
  "float_truthy x = (x \<noteq> Finite 0)"

definition float_mul :: "pyfloat \<Rightarrow> rat \<Rightarrow> pyfloat" where
  \<comment> \<open>\<^verbatim>\<open>x * k\<close> for a constant \<open>k > 0\<close>\<close>
  "float_mul x k = (case x of Finite r \<Rightarrow> Finite (r * k) | _ \<Rightarrow> x)"

definition float_div :: "pyfloat \<Rightarrow> rat \<Rightarrow> pyfloat" where
  \<comment> \<open>\<^verbatim>\<open>x / k\<close> for a constant \<open>k > 0\<close>\<close>
  "float_div x k = (case x of Finite r \<Rightarrow> Finite (r / k) | _ \<Rightarrow> x)"

definition int_of_float :: "pyfloat \<Rightarrow> fault + int" where
  \<comment> \<open>\<^verbatim>\<open>int(x)\<close>: truncation towards zero\<close>
  "int_of_float x =
     (case x of
        Finite r \<Rightarrow> Inr (if 0 \<le> r then \<lfloor>r\<rfloor> else \<lceil>r\<rceil>)
      | NaN \<Rightarrow> Inl ValueError
      | _ \<Rightarrow> Inl OverflowError)"

text \<open>A value that is a float or an int (\<^verbatim>\<open>float(...) if ... else 0\<close>).\<close>

datatype pynum = PyInt int | PyFloat pyfloat

subsection \<open>Strings\<close>

text \<open>A string is a list of bytes (UTF-8); \<^verbatim>\<open>sub in s\<close>, \<^verbatim>\<open>s.startswith(p)\<close> and
  \<^verbatim>\<open>s.replace(old, new)\<close> mean the same on bytes as on code points.\<close>

fun startswith :: "string \<Rightarrow> string \<Rightarrow> bool" where
  "startswith s [] = True"
| "startswith [] (p # ps) = False"
| "startswith (c # s) (p # ps) = (c = p \<and> startswith s ps)"

fun contains :: "string \<Rightarrow> string \<Rightarrow> bool" where
  \<comment> \<open>\<^verbatim>\<open>sub in s\<close>\<close>
  "contains [] sub = (sub = [])"
| "contains (c # s) sub = (startswith (c # s) sub \<or> contains s sub)"

fun replace :: "string \<Rightarrow> string \<Rightarrow> string \<Rightarrow> string" where
  \<comment> \<open>\<^verbatim>\<open>s.replace(old, new)\<close> for a non-empty \<open>old\<close>, as at every call below\<close>
  "replace [] old new = []"
| "replace (c # s) old new =
     (if old \<noteq> [] \<and> startswith (c # s) old
      then new @ replace (drop (length old) (c # s)) old new
      else c # replace s old new)"

definition digit_char :: "nat \<Rightarrow> char" where
  "digit_char n = ''0123456789'' ! (n mod 10)"

fun str_nat :: "nat \<Rightarrow> string" where
  "str_nat n = (if n < 10 then [digit_char n] else str_nat (n div 10) @ [digit_char n])"

declare str_nat.simps [simp del]

definition str_int :: "int \<Rightarrow> string" where
  \<comment> \<open>\<^verbatim>\<open>str(i)\<close> for an int\<close>
  "str_int i = (if i < 0 then CHR ''-'' # str_nat (nat (- i)) else str_nat (nat i))"

definition zfill :: "nat \<Rightarrow> string \<Rightarrow> string" where
  \<comment> \<open>zero padding on the left, as \<^verbatim>\<open>{:02d}\<close> and \<^verbatim>\<open>%m\<close> do\<close>
  "zfill k s = replicate (k - length s) CHR ''0'' @ s"

subsection \<open>Date and time\<close>

record datetime =
  year :: nat
  month :: nat
  day :: nat
  hour :: nat
  minute :: nat
  second :: nat
  microsecond :: nat
  utcoffset :: "int option"  \<comment> \<open>seconds east of UTC; \<open>None\<close> for a naive datetime\<close>

definition strftime_tcx :: "datetime \<Rightarrow> string" where
  \<comment> \<open>\<^verbatim>\<open>dt.strftime('%Y-%m-%dT%H:%M:%S.%fZ')\<close>; \<^verbatim>\<open>%Y\<close> is not padded (glibc)\<close>
  "strftime_tcx dt =
     str_nat (year dt) @ ''-'' @ zfill 2 (str_nat (month dt)) @ ''-'' @ zfill 2 (str_nat (day dt))
     @ ''T'' @ zfill 2 (str_nat (hour dt)) @ '':'' @ zfill 2 (str_nat (minute dt)) @ '':''
     @ zfill 2 (str_nat (second dt)) @ ''.'' @ zfill 6 (str_nat (microsecond dt)) @ ''Z''"

definition strftime_file :: "datetime \<Rightarrow> string" where
  \<comment> \<open>\<^verbatim>\<open>dt.strftime('%Y-%m-%d_%H%M%S')\<close>\<close>
  "strftime_file dt =
     str_nat (year dt) @ ''-'' @ zfill 2 (str_nat (month dt)) @ ''-'' @ zfill 2 (str_nat (day dt))
     @ ''_'' @ zfill 2 (str_nat (hour dt)) @ zfill 2 (str_nat (minute dt))
     @ zfill 2 (str_nat (second dt))"

definition is_leap :: "nat \<Rightarrow> bool" where
  "is_leap y = (y mod 4 = 0 \<and> (y mod 100 \<noteq> 0 \<or> y mod 400 = 0))"

definition days_in_month :: "nat \<Rightarrow> nat \<Rightarrow> nat" where
  "days_in_month y m =
     (if m = 2 then (if is_leap y then 29 else 28)
      else if m = 4 \<or> m = 6 \<or> m = 9 \<or> m = 11 then 30 else 31)"

definition is_digit :: "char \<Rightarrow> bool" where
  "is_digit c = (c \<in> set ''0123456789'')"

definition digit_val :: "char \<Rightarrow> nat" where
  "digit_val c = of_char c - 48"

fun digits_val :: "string \<Rightarrow> nat \<Rightarrow> nat" where
  \<comment> \<open>the number a run of digits writes, after the digits already read\<close>
  "digits_val [] acc = acc"
| "digits_val (c # cs) acc = digits_val cs (10 * acc + digit_val c)"

definition number :: "string \<Rightarrow> nat option" where
  "number s = (if s \<noteq> [] \<and> list_all is_digit s then Some (digits_val s 0) else None)"

text \<open>
  The runtime functions whose grammar no statement below needs are parameters of the
  model: \<^verbatim>\<open>float(s)\<close> and \<^verbatim>\<open>int(s)\<close> on a string, \<^verbatim>\<open>str(x)\<close> on a float, \<^verbatim>\<open>s.lower()\<close>
  (which follows the Unicode case tables), and \<^verbatim>\<open>datetime.fromisoformat\<close> outside the
  forms described next. Every theorem holds for all of them.
\<close>

record runtime =
  float_of_str :: "string \<Rightarrow> fault + pyfloat"
  int_of_str :: "string \<Rightarrow> fault + int"
  str_of_float :: "pyfloat \<Rightarrow> string"
  str_lower :: "string \<Rightarrow> string"
  isoformat_other :: "string \<Rightarrow> fault + datetime"

definition str_num :: "runtime \<Rightarrow> pynum \<Rightarrow> string" where
  "str_num rt x = (case x of PyInt i \<Rightarrow> str_int i | PyFloat f \<Rightarrow> str_of_float rt f)"

text \<open>
  \<^verbatim>\<open>datetime.fromisoformat\<close> (CPython 3.11 and later) on the forms this program meets:
  a text shorter than seven characters is refused; \<^verbatim>\<open>YYYY-MM-DD\<close> is a naive midnight;
  \<^verbatim>\<open>YYYY-MM-DD\<close>, a blank or \<^verbatim>\<open>T\<close>, \<^verbatim>\<open>HH:MM:SS\<close> is a naive datetime, and followed
  by an optional blank, a sign and \<^verbatim>\<open>HHMM\<close> or \<^verbatim>\<open>HH:MM\<close> it is an aware one. The fields
  are then checked as the \<^verbatim>\<open>datetime\<close> and \<^verbatim>\<open>timezone\<close> constructors check them. Any
  other text is left to \<open>isoformat_other\<close>.
\<close>

definition date_fields :: "string \<Rightarrow> (nat \<times> nat \<times> nat) option" where
  \<comment> \<open>\<^verbatim>\<open>YYYY-MM-DD\<close>\<close>
  "date_fields s =
     (if length s = 10 \<and> s ! 4 = CHR ''-'' \<and> s ! 7 = CHR ''-'' then
        (case (number (take 4 s), number (take 2 (drop 5 s)), number (drop 8 s)) of
           (Some y, Some m, Some d) \<Rightarrow> Some (y, m, d)
         | _ \<Rightarrow> None)
      else None)"

definition time_fields :: "string \<Rightarrow> (nat \<times> nat \<times> nat) option" where
  \<comment> \<open>\<^verbatim>\<open>HH:MM:SS\<close>\<close>
  "time_fields s =
     (if length s = 8 \<and> s ! 2 = CHR '':'' \<and> s ! 5 = CHR '':'' then
        (case (number (take 2 s), number (take 2 (drop 3 s)), number (drop 6 s)) of
           (Some h, Some m, Some sec) \<Rightarrow> Some (h, m, sec)
         | _ \<Rightarrow> None)
      else None)"

definition offset_fields :: "string \<Rightarrow> int option" where
  \<comment> \<open>a sign, then \<^verbatim>\<open>HHMM\<close> or \<^verbatim>\<open>HH:MM\<close>: the offset in seconds\<close>
  "offset_fields s =
     (case s of
        [] \<Rightarrow> None
      | sg # ds \<Rightarrow>
          if sg = CHR ''+'' \<or> sg = CHR ''-'' then
            (let hm = (if length ds = 5 \<and> ds ! 2 = CHR '':'' then take 2 ds @ drop 3 ds else ds)
             in if length hm = 4 then
                  (case (number (take 2 hm), number (drop 2 hm)) of
                     (Some h, Some m) \<Rightarrow>
                       Some ((if sg = CHR ''-'' then - 1 else 1) * (int h * 3600 + int m * 60))
                   | _ \<Rightarrow> None)
                else None)
          else None)"

definition new_datetime ::
  "nat \<times> nat \<times> nat \<Rightarrow> nat \<times> nat \<times> nat \<Rightarrow> int option \<Rightarrow> fault + datetime" where
  \<comment> \<open>the range checks of the \<^verbatim>\<open>timezone\<close> and \<^verbatim>\<open>datetime\<close> constructors\<close>
  "new_datetime d t off =
     (case (d, t) of ((y, m, dd), (h, mi, s)) \<Rightarrow>
        if (case off of None \<Rightarrow> False | Some z \<Rightarrow> \<bar>z\<bar> \<ge> 86400) then Inl ValueError
        else if 1 \<le> y \<and> y \<le> 9999 \<and> 1 \<le> m \<and> m \<le> 12 \<and> 1 \<le> dd \<and> dd \<le> days_in_month y m
                \<and> h \<le> 23 \<and> mi \<le> 59 \<and> s \<le> 59
        then Inr \<lparr>year = y, month = m, day = dd, hour = h, minute = mi, second = s,
                  microsecond = 0, utcoffset = off\<rparr>
        else Inl ValueError)"

definition fromisoformat :: "runtime \<Rightarrow> string \<Rightarrow> fault + datetime" where
  "fromisoformat rt s =
     (if length s < 7 then Inl ValueError
      else
        (case date_fields (take 10 s) of
           None \<Rightarrow> isoformat_other rt s
         | Some d \<Rightarrow>
             if length s = 10 then new_datetime d (0, 0, 0) None
             else if s ! 10 = CHR '' '' \<or> s ! 10 = CHR ''T'' then
               (case time_fields (take 8 (drop 11 s)) of
                  None \<Rightarrow> isoformat_other rt s
                | Some t \<Rightarrow>
                    (let rest = drop 19 s;
                         tz = (if startswith rest '' '' then drop 1 rest else rest)
                     in if rest = [] then new_datetime d t None
                        else (case offset_fields tz of
                                None \<Rightarrow> isoformat_other rt s
                              | Some z \<Rightarrow> new_datetime d t (Some z))))
             else isoformat_other rt s))"

section \<open>The converter\<close>

subsection \<open>Activity types and dates\<close>

definition mapping :: "(string \<times> string) list" where
  "mapping =
     [(''HKWorkoutActivityTypeRunning'', ''Running''),
      (''HKWorkoutActivityTypeWalking'', ''Walking''),
      (''HKWorkoutActivityTypeCycling'', ''Biking''),
      (''HKWorkoutActivityTypeHiking'', ''Other''),
      (''HKWorkoutActivityTypeSwimming'', ''Swimming'')]"

definition convert_activity_type :: "string \<Rightarrow> string" where
  \<comment> \<open>\<^verbatim>\<open>mapping.get(apple_type, 'Other')\<close>\<close>
  "convert_activity_type apple_type =
     (case map_of mapping apple_type of None \<Rightarrow> ''Other'' | Some v \<Rightarrow> v)"

definition parse_apple_date :: "runtime \<Rightarrow> string \<Rightarrow> fault + datetime" where
  "parse_apple_date rt date_str = fromisoformat rt date_str"

subsection \<open>Element trees\<close>

text \<open>
  An \<^verbatim>\<open>xml.etree.ElementTree\<close> element: tag, attributes, text and children. A
  namespaced tag is written as ElementTree stores it, \<^verbatim>\<open>{uri}name\<close>.
\<close>

datatype xml =
  Element (tag: string) (attrib: "(string \<times> string) list") (etext: "string option")
    (children: "xml list")

definition elem_get :: "xml \<Rightarrow> string \<Rightarrow> string option" where
  \<comment> \<open>\<^verbatim>\<open>elem.get(key)\<close>\<close>
  "elem_get e k = map_of (attrib e) k"

definition str_attr :: "xml \<Rightarrow> string \<Rightarrow> string" where
  \<comment> \<open>\<^verbatim>\<open>elem.get(key, '')\<close>\<close>
  "str_attr e k = (case elem_get e k of None \<Rightarrow> [] | Some s \<Rightarrow> s)"

definition float_attr :: "runtime \<Rightarrow> xml \<Rightarrow> string \<Rightarrow> fault + pyfloat" where
  \<comment> \<open>\<^verbatim>\<open>float(elem.get(key, 0))\<close>\<close>
  "float_attr rt e k = (case elem_get e k of None \<Rightarrow> Inr (Finite 0) | Some s \<Rightarrow> float_of_str rt s)"

definition int_attr :: "runtime \<Rightarrow> xml \<Rightarrow> string \<Rightarrow> fault + int" where
  \<comment> \<open>\<^verbatim>\<open>int(elem.get(key, 0))\<close>\<close>
  "int_attr rt e k = (case elem_get e k of None \<Rightarrow> Inr 0 | Some s \<Rightarrow> int_of_str rt s)"

definition float_text :: "runtime \<Rightarrow> xml \<Rightarrow> fault + pyfloat" where
  \<comment> \<open>\<^verbatim>\<open>float(elem.text)\<close>; the text of an empty element is \<^verbatim>\<open>None\<close>\<close>
  "float_text rt e = (case etext e of None \<Rightarrow> Inl TypeError | Some s \<Rightarrow> float_of_str rt s)"

fun iter :: "xml \<Rightarrow> xml list" where
  \<comment> \<open>\<^verbatim>\<open>elem.iter()\<close>: the element and its descendants, in document order\<close>
  "iter (Element t a x cs) = Element t a x cs # concat (map iter cs)"

definition findall_desc :: "string \<Rightarrow> xml \<Rightarrow> xml list" where
  \<comment> \<open>\<^verbatim>\<open>elem.findall('.//t')\<close>\<close>
  "findall_desc t e = filter (\<lambda>d. tag d = t) (concat (map iter (children e)))"

definition find_child :: "string \<Rightarrow> xml \<Rightarrow> xml option" where
  \<comment> \<open>\<^verbatim>\<open>elem.find('./t')\<close>\<close>
  "find_child t e = List.find (\<lambda>c. tag c = t) (children e)"

subsection \<open>Files, console and documents written\<close>

type_synonym path = "string list"

text \<open>
  A path is the list of its segments; a file name taken from the archive is one segment.
  The file system as the run finds it: what \<^verbatim>\<open>ET.parse\<close> gives for a path (\<open>None\<close>
  when no such file exists, \<open>Inl\<close> when reading or parsing it raises), and whether
  looking a path up, creating a directory or writing a file at a path raises.
\<close>

record filesystem =
  xml_files :: "path \<Rightarrow> (fault + xml) option"
  stat_fault :: "path \<Rightarrow> fault option"
  mkdir_fault :: "path \<Rightarrow> fault option"
  write_fault :: "path \<Rightarrow> fault option"

definition path_exists :: "filesystem \<Rightarrow> path \<Rightarrow> fault + bool" where
  \<comment> \<open>\<^verbatim>\<open>p.exists()\<close> as \<^verbatim>\<open>pathlib\<close> of CPython 3.11 has it: \<^verbatim>\<open>False\<close> when \<^verbatim>\<open>stat\<close> finds no
     such file; any other \<^verbatim>\<open>OSError\<close> of \<^verbatim>\<open>stat\<close> (a name that is too long, a directory that
     may not be searched) is raised again. Where the test cannot raise, \<open>stat_fault\<close> is
     \<open>None\<close> everywhere\<close>
  "path_exists fs p =
     (case stat_fault fs p of Some e \<Rightarrow> Inl e | None \<Rightarrow> Inr (xml_files fs p \<noteq> None))"

definition et_parse :: "filesystem \<Rightarrow> path \<Rightarrow> fault + xml" where
  \<comment> \<open>\<^verbatim>\<open>ET.parse(p).getroot()\<close>\<close>
  "et_parse fs p = (case xml_files fs p of None \<Rightarrow> Inl OSError | Some r \<Rightarrow> r)"

text \<open>
  What a run changes: the diagnostics it prints and the documents it writes, oldest
  first. A statement that may raise after changing them maps the state before to its
  result and the state after. Progress lines that carry no diagnostic are not recorded.
\<close>

datatype event =
  GpxError path fault
  | ConvertError datetime fault
  | ConvertNoHrError datetime fault
  | Converted string

record world =
  console :: "event list"
  written :: "(path \<times> xml) list"

type_synonym 'a io = "world \<Rightarrow> (fault + 'a) \<times> world"

definition io_return :: "'a \<Rightarrow> 'a io" where
  "io_return v w = (Inr v, w)"

definition io_lift :: "fault + 'a \<Rightarrow> 'a io" where
  "io_lift r w = (r, w)"

definition io_bind :: "'a io \<Rightarrow> ('a \<Rightarrow> 'b io) \<Rightarrow> 'b io" where
  "io_bind m f w = (case m w of (Inl e, w') \<Rightarrow> (Inl e, w') | (Inr v, w') \<Rightarrow> f v w')"

definition try_except :: "'a io \<Rightarrow> (fault \<Rightarrow> 'a io) \<Rightarrow> 'a io" where
  \<comment> \<open>\<^verbatim>\<open>try: body  except Exception as e: handler\<close>\<close>
  "try_except body handler w =
     (case body w of (Inl e, w') \<Rightarrow> handler e w' | (Inr v, w') \<Rightarrow> (Inr v, w'))"

definition log_event :: "event \<Rightarrow> unit io" where
  "log_event ev w = (Inr (), w\<lparr>console := console w @ [ev]\<rparr>)"



subsection \<open>Workout records and their extraction\<close>

record hr_stats =
  hr_avg :: pyfloat
  hr_min :: int
  hr_max :: int

record workout =
  sport :: string
  start_time :: datetime
  end_time :: datetime
  duration_minutes :: pyfloat
  heart_rate :: "hr_stats option"
  distance :: "pyfloat option"
  calories :: "pyfloat option"
  elevation_gain :: "pyfloat option"
  gpx_file :: "path option"

record converter =
  export_dir :: path

definition export_xml :: "converter \<Rightarrow> path" where
  "export_xml self = export_dir self @ [''export.xml'']"

definition routes_dir :: "converter \<Rightarrow> path" where
  "routes_dir self = export_dir self @ [''workout-routes'']"

definition workout_statistic :: "runtime \<Rightarrow> xml \<Rightarrow> workout \<Rightarrow> fault + workout" where
  \<comment> \<open>the body of the loop over \<^verbatim>\<open>WorkoutStatistics\<close>\<close>
  "workout_statistic rt stat workout_data =
     (if contains (str_attr stat ''type'') ''HeartRate'' then
        result_bind (float_attr rt stat ''average'') (\<lambda>a.
        result_bind (int_attr rt stat ''minimum'') (\<lambda>mn.
        result_bind (int_attr rt stat ''maximum'') (\<lambda>mx.
        Inr (workout_data\<lparr>heart_rate := Some \<lparr>hr_avg = a, hr_min = mn, hr_max = mx\<rparr>\<rparr>))))
      else if contains (str_attr stat ''type'') ''DistanceWalkingRunning'' then
        result_bind (float_attr rt stat ''sum'') (\<lambda>d. Inr (workout_data\<lparr>distance := Some d\<rparr>))
      else if contains (str_attr stat ''type'') ''ActiveEnergyBurned'' then
        result_bind (float_attr rt stat ''sum'') (\<lambda>c. Inr (workout_data\<lparr>calories := Some c\<rparr>))
      else Inr workout_data)"

fun workout_statistics :: "runtime \<Rightarrow> xml list \<Rightarrow> workout \<Rightarrow> fault + workout" where
  "workout_statistics rt [] workout_data = Inr workout_data"
| "workout_statistics rt (stat # rest) workout_data =
     result_bind (workout_statistic rt stat workout_data) (workout_statistics rt rest)"

definition elevation_entry :: "xml \<Rightarrow> xml option" where
  \<comment> \<open>\<^verbatim>\<open>find('.//MetadataEntry[@key="HKElevationAscended"]')\<close>\<close>
  "elevation_entry e =
     List.find (\<lambda>m. elem_get m ''key'' = Some ''HKElevationAscended'')
       (findall_desc ''MetadataEntry'' e)"

definition route_reference :: "xml \<Rightarrow> xml option" where
  \<comment> \<open>\<^verbatim>\<open>find('.//WorkoutRoute/FileReference')\<close>\<close>
  "route_reference e =
     (case concat (map (\<lambda>r. filter (\<lambda>c. tag c = ''FileReference'') (children r))
                    (findall_desc ''WorkoutRoute'' e)) of
        [] \<Rightarrow> None
      | f # _ \<Rightarrow> Some f)"

definition elevation_ascended :: "runtime \<Rightarrow> xml \<Rightarrow> fault + pyfloat option" where
  "elevation_ascended rt workout_elem =
     (case elevation_entry workout_elem of
        None \<Rightarrow> Inr None
      | Some elevation_elem \<Rightarrow>
          result_bind
            (float_of_str rt
               (replace (case elem_get elevation_elem ''value'' of None \<Rightarrow> ''0 cm'' | Some s \<Rightarrow> s)
                  '' cm'' []))
            (\<lambda>elevation_cm. Inr (Some (float_div elevation_cm 100))))"

definition route_file :: "path \<Rightarrow> xml \<Rightarrow> path option" where
  \<comment> \<open>\<^verbatim>\<open>self.routes_dir / gpx_filename\<close>, the remainder of the reference taken as one
     relative segment\<close>
  "route_file routes workout_elem =
     (case route_reference workout_elem of
        None \<Rightarrow> None
      | Some route_elem \<Rightarrow>
          if startswith (str_attr route_elem ''path'') ''/workout-routes/''
          then Some (routes @ [replace (str_attr route_elem ''path'') ''/workout-routes/'' []])
          else None)"

definition extract_workout_data :: "runtime \<Rightarrow> converter \<Rightarrow> xml \<Rightarrow> fault + workout option" where
  "extract_workout_data rt self workout_elem =
     result_bind (float_attr rt workout_elem ''duration'') (\<lambda>duration.
     if str_attr workout_elem ''startDate'' = [] \<or> str_attr workout_elem ''endDate'' = []
     then Inr None
     else
       result_bind (parse_apple_date rt (str_attr workout_elem ''startDate'')) (\<lambda>start_dt.
       result_bind (parse_apple_date rt (str_attr workout_elem ''endDate'')) (\<lambda>end_dt.
       result_bind
         (workout_statistics rt (findall_desc ''WorkoutStatistics'' workout_elem)
            \<lparr>sport = convert_activity_type (str_attr workout_elem ''workoutActivityType''),
             start_time = start_dt, end_time = end_dt, duration_minutes = duration,
             heart_rate = None, distance = None, calories = None, elevation_gain = None,
             gpx_file = None\<rparr>) (\<lambda>workout_data.
       result_bind (elevation_ascended rt workout_elem) (\<lambda>elevation.
       Inr (Some (workout_data
              \<lparr>elevation_gain := (case elevation of None \<Rightarrow> elevation_gain workout_data
                                    | Some m \<Rightarrow> Some m),
               gpx_file := route_file (routes_dir self) workout_elem\<rparr>)))))))"

definition is_apple_watch :: "xml \<Rightarrow> bool" where
  \<comment> \<open>\<^verbatim>\<open>'Apple Watch' in source_name or 'Bharat' in source_name\<close>\<close>
  "is_apple_watch workout =
     (contains (str_attr workout ''sourceName'') ''Apple Watch''
      \<or> contains (str_attr workout ''sourceName'') ''Bharat'')"

fun workouts_loop :: "runtime \<Rightarrow> converter \<Rightarrow> xml list \<Rightarrow> workout list \<Rightarrow> fault + workout list" where
  "workouts_loop rt self [] workouts = Inr workouts"
| "workouts_loop rt self (workout # rest) workouts =
     (if is_apple_watch workout then
        result_bind (extract_workout_data rt self workout) (\<lambda>workout_data.
          workouts_loop rt self rest
            (case workout_data of None \<Rightarrow> workouts | Some d \<Rightarrow> workouts @ [d]))
      else workouts_loop rt self rest workouts)"

definition parse_apple_workouts :: "runtime \<Rightarrow> filesystem \<Rightarrow> converter \<Rightarrow> fault + workout list" where
  "parse_apple_workouts rt fs self =
     result_bind (et_parse fs (export_xml self)) (\<lambda>root.
       workouts_loop rt self (findall_desc ''Workout'' root) [])"

subsection \<open>Track files\<close>

record trackpoint =
  lat :: pyfloat
  lon :: pyfloat
  elevation :: pynum
  time :: datetime
  speed :: "pyfloat option"

definition gpx_ns :: string where
  "gpx_ns = ''{http://www.topografix.com/GPX/1/1}''"

definition trackpoint_of :: "runtime \<Rightarrow> xml \<Rightarrow> fault + trackpoint option" where
  \<comment> \<open>the body of the loop over \<^verbatim>\<open>trkpt\<close> elements; \<open>None\<close> is its \<^verbatim>\<open>continue\<close>\<close>
  "trackpoint_of rt trkpt =
     result_bind (float_attr rt trkpt ''lat'') (\<lambda>la.
     result_bind (float_attr rt trkpt ''lon'') (\<lambda>lo.
     result_bind
       (case find_child (gpx_ns @ ''ele'') trkpt of
          None \<Rightarrow> Inr (PyInt 0)
        | Some ele_elem \<Rightarrow> result_bind (float_text rt ele_elem) (\<lambda>f. Inr (PyFloat f))) (\<lambda>el.
     case find_child (gpx_ns @ ''time'') trkpt of
       None \<Rightarrow> Inr None
     | Some time_elem \<Rightarrow>
         result_bind
           (case etext time_elem of
              None \<Rightarrow> Inl AttributeError
            | Some s \<Rightarrow> fromisoformat rt (replace s ''Z'' ''+00:00'')) (\<lambda>timestamp.
         result_bind
           (case find_child (gpx_ns @ ''extensions'') trkpt of
              None \<Rightarrow> Inr None
            | Some extensions \<Rightarrow>
                (case find_child ''speed'' extensions of
                   None \<Rightarrow> Inr None
                 | Some speed_elem \<Rightarrow> result_bind (float_text rt speed_elem) (\<lambda>f. Inr (Some f))))
           (\<lambda>sp.
         Inr (Some \<lparr>lat = la, lon = lo, elevation = el, time = timestamp, speed = sp\<rparr>))))))"

fun trackpoints_loop :: "runtime \<Rightarrow> xml list \<Rightarrow> trackpoint list \<Rightarrow> fault + trackpoint list" where
  "trackpoints_loop rt [] trackpoints = Inr trackpoints"
| "trackpoints_loop rt (trkpt # rest) trackpoints =
     result_bind (trackpoint_of rt trkpt) (\<lambda>tp.
       trackpoints_loop rt rest (case tp of None \<Rightarrow> trackpoints | Some p \<Rightarrow> trackpoints @ [p]))"

definition read_trackpoints :: "runtime \<Rightarrow> filesystem \<Rightarrow> path \<Rightarrow> fault + trackpoint list" where
  \<comment> \<open>the body of the \<^verbatim>\<open>try\<close> of \<^verbatim>\<open>parse_gpx_file\<close>\<close>
  "read_trackpoints rt fs p =
     result_bind (et_parse fs p) (\<lambda>root.
       trackpoints_loop rt (findall_desc (gpx_ns @ ''trkpt'') root) [])"

definition parse_gpx_file :: "runtime \<Rightarrow> filesystem \<Rightarrow> path option \<Rightarrow> trackpoint list io" where
  "parse_gpx_file rt fs gpx =
     (case gpx of
        None \<Rightarrow> io_return []
      | Some p \<Rightarrow>
          io_bind (io_lift (path_exists fs p)) (\<lambda>there.
            if \<not> there then io_return []
            else try_except (io_lift (read_trackpoints rt fs p))
                   (\<lambda>e. io_bind (log_event (GpxError p e)) (\<lambda>_. io_return []))))"

subsection \<open>Building a document\<close>

definition text_elem :: "string \<Rightarrow> string \<Rightarrow> xml" where
  \<comment> \<open>\<^verbatim>\<open>e = ET.SubElement(parent, t); e.text = s\<close>\<close>
  "text_elem t s = Element t [] (Some s) []"

definition value_elem :: "string \<Rightarrow> string \<Rightarrow> xml" where
  \<comment> \<open>an element whose only child is a \<^verbatim>\<open>Value\<close> with the text\<close>
  "value_elem t s = Element t [] None [text_elem ''Value'' s]"

definition tcx_attrib :: "(string \<times> string) list" where
  "tcx_attrib =
     [(''xmlns'', ''http://www.garmin.com/xmlschemas/TrainingCenterDatabase/v2''),
      (''xmlns:xsi'', ''http://www.w3.org/2001/XMLSchema-instance''),
      (''xsi:schemaLocation'',
       ''http://www.garmin.com/xmlschemas/TrainingCenterDatabase/v2 ''
       @ ''http://www.garmin.com/xmlschemas/TrainingCenterDatabasev2.xsd'')]"

definition creator :: xml where
  "creator =
     Element ''Creator'' [(''xsi:type'', ''Device_t'')] None
       [text_elem ''Name'' ''Apple Watch'', text_elem ''UnitId'' ''0'',
        text_elem ''ProductID'' ''0'']"

fun track_loop :: "runtime \<Rightarrow> workout \<Rightarrow> trackpoint list \<Rightarrow> xml list \<Rightarrow> fault + xml list" where
  \<comment> \<open>the loop over the track points in \<^verbatim>\<open>create_tcx\<close>\<close>
  "track_loop rt workout_data [] track = Inr track"
| "track_loop rt workout_data (tp # rest) track =
     result_bind
       (case heart_rate workout_data of
          None \<Rightarrow> Inr []
        | Some hr \<Rightarrow>
            result_bind (int_of_float (hr_avg hr)) (\<lambda>a. Inr [value_elem ''HeartRateBpm'' (str_int a)]))
       (\<lambda>hr_elem.
     track_loop rt workout_data rest
       (track @
        [Element ''Trackpoint'' [] None
           ([text_elem ''Time'' (strftime_tcx (time tp)),
             Element ''Position'' [] None
               [text_elem ''LatitudeDegrees'' (str_of_float rt (lat tp)),
                text_elem ''LongitudeDegrees'' (str_of_float rt (lon tp))],
             text_elem ''AltitudeMeters'' (str_num rt (elevation tp))]
            @ hr_elem)]))"

definition create_tcx :: "runtime \<Rightarrow> filesystem \<Rightarrow> workout \<Rightarrow> xml io" where
  "create_tcx rt fs workout_data =
     io_bind
       (io_lift
          (case calories workout_data of
             None \<Rightarrow> Inr []
           | Some c \<Rightarrow>
               if float_truthy c
               then result_bind (int_of_float c) (\<lambda>i. Inr [text_elem ''Calories'' (str_int i)])
               else Inr [])) (\<lambda>calories_elem.
     io_bind
       (io_lift
          (case heart_rate workout_data of
             None \<Rightarrow> Inr []
           | Some hr \<Rightarrow>
               result_bind (int_of_float (hr_avg hr)) (\<lambda>a.
                 Inr [value_elem ''AverageHeartRateBpm'' (str_int a),
                      value_elem ''MaximumHeartRateBpm'' (str_int (hr_max hr))]))) (\<lambda>hr_summary.
     io_bind (parse_gpx_file rt fs (gpx_file workout_data)) (\<lambda>trackpoints.
     io_bind
       (io_lift
          (if trackpoints = [] then Inr []
           else result_bind (track_loop rt workout_data trackpoints [])
                  (\<lambda>track. Inr [Element ''Track'' [] None track]))) (\<lambda>track_elem.
     io_return
       (Element ''TrainingCenterDatabase'' tcx_attrib None
          [Element ''Activities'' [] None
             [Element ''Activity'' [(''Sport'', sport workout_data)] None
                [text_elem ''Id'' (strftime_tcx (start_time workout_data)),
                 Element ''Lap'' [(''StartTime'', strftime_tcx (start_time workout_data))] None
                   ([text_elem ''TotalTimeSeconds''
                       (str_of_float rt (float_mul (duration_minutes workout_data) 60))]
                    @ (case distance workout_data of
                         None \<Rightarrow> []
                       | Some d \<Rightarrow>
                           if float_truthy d
                           then [text_elem ''DistanceMeters'' (str_of_float rt (float_mul d 1000))]
                           else [])
                    @ calories_elem @ hr_summary @ track_elem),
                 creator]]])))))"

fun track_loop_no_hr :: "runtime \<Rightarrow> trackpoint list \<Rightarrow> xml list \<Rightarrow> xml list" where
  \<comment> \<open>the loop over the track points in \<^verbatim>\<open>create_tcx_no_hr\<close>\<close>
  "track_loop_no_hr rt [] track = track"
| "track_loop_no_hr rt (tp # rest) track =
     track_loop_no_hr rt rest
       (track @
        [Element ''Trackpoint'' [] None
           [text_elem ''Time'' (strftime_tcx (time tp)),
            Element ''Position'' [] None
              [text_elem ''LatitudeDegrees'' (str_of_float rt (lat tp)),
               text_elem ''LongitudeDegrees'' (str_of_float rt (lon tp))],
            text_elem ''AltitudeMeters'' (str_num rt (elevation tp))]])"

definition create_tcx_no_hr :: "runtime \<Rightarrow> filesystem \<Rightarrow> workout \<Rightarrow> xml io" where
  "create_tcx_no_hr rt fs workout_data =
     io_bind
       (io_lift
          (case calories workout_data of
             None \<Rightarrow> Inr []
           | Some c \<Rightarrow>
               if float_truthy c
               then result_bind (int_of_float c) (\<lambda>i. Inr [text_elem ''Calories'' (str_int i)])
               else Inr [])) (\<lambda>calories_elem.
     io_bind (parse_gpx_file rt fs (gpx_file workout_data)) (\<lambda>trackpoints.
     io_return
       (Element ''TrainingCenterDatabase'' tcx_attrib None
          [Element ''Activities'' [] None
             [Element ''Activity'' [(''Sport'', sport workout_data)] None
                [text_elem ''Id'' (strftime_tcx (start_time workout_data)),
                 Element ''Lap'' [(''StartTime'', strftime_tcx (start_time workout_data))] None
                   ([text_elem ''TotalTimeSeconds''
                       (str_of_float rt (float_mul (duration_minutes workout_data) 60))]
                    @ (case distance workout_data of
                         None \<Rightarrow> []
                       | Some d \<Rightarrow>
                           if float_truthy d
                           then [text_elem ''DistanceMeters'' (str_of_float rt (float_mul d 1000))]
                           else [])
                    @ calories_elem
                    @ (if trackpoints = [] then []
                       else [Element ''Track'' [] None (track_loop_no_hr rt trackpoints [])])),
                 creator]]])))"

subsection \<open>The conversion run\<close>








section \<open>Notions the properties are stated with\<close>

text \<open>
  The shape \<^verbatim>\<open>YYYY-MM-DD HH:MM:SS +HHMM\<close> of an Apple Health date, as a template: a
  \<^verbatim>\<open>9\<close> stands for any digit, a \<^verbatim>\<open>+\<close> for either sign, any other character for
  itself. \<open>field s i n\<close> is the number written by the \<open>n\<close> characters from position \<open>i\<close>.
\<close>

fun shaped :: "string \<Rightarrow> string \<Rightarrow> bool" where
  "shaped [] [] = True"
| "shaped (p # ps) (c # cs) =
     ((if p = CHR ''9'' then is_digit c
       else if p = CHR ''+'' then c = CHR ''+'' \<or> c = CHR ''-''
       else c = p) \<and> shaped ps cs)"
| "shaped ps cs = False"

definition apple_date_shape :: "string \<Rightarrow> bool" where
  "apple_date_shape s = shaped ''9999-99-99 99:99:99 +9999'' s"

definition field :: "string \<Rightarrow> nat \<Rightarrow> nat \<Rightarrow> nat" where
  "field s i n = digits_val (take n (drop i s)) 0"

definition apple_date_in_range :: "string \<Rightarrow> bool" where
  \<comment> \<open>a calendar date, a time of day, and an offset of less than a day\<close>
  "apple_date_in_range s =
     (1 \<le> field s 0 4 \<and> 1 \<le> field s 5 2 \<and> field s 5 2 \<le> 12
      \<and> 1 \<le> field s 8 2 \<and> field s 8 2 \<le> days_in_month (field s 0 4) (field s 5 2)
      \<and> field s 11 2 \<le> 23 \<and> field s 14 2 \<le> 59 \<and> field s 17 2 \<le> 59
      \<and> 60 * field s 21 2 + field s 23 2 < 1440)"

definition has_time :: "xml \<Rightarrow> bool" where
  \<comment> \<open>the point element has a \<^verbatim>\<open>time\<close> child\<close>
  "has_time trkpt = (find_child (gpx_ns @ ''time'') trkpt \<noteq> None)"

definition readable_point :: "runtime \<Rightarrow> xml \<Rightarrow> bool" where
  \<comment> \<open>everything the parser reads of the point can be read: its coordinates and its
     elevation are numbers, and a timestamp, if there is one, is a date and comes with a
     speed that is a number, if there is one\<close>
  "readable_point rt trkpt =
     (\<not> isl (float_attr rt trkpt ''lat'') \<and> \<not> isl (float_attr rt trkpt ''lon'')
      \<and> (case find_child (gpx_ns @ ''ele'') trkpt of
            None \<Rightarrow> True
          | Some ele_elem \<Rightarrow> \<not> isl (float_text rt ele_elem))
      \<and> (case find_child (gpx_ns @ ''time'') trkpt of
            None \<Rightarrow> True
          | Some time_elem \<Rightarrow>
              (case etext time_elem of
                 None \<Rightarrow> False
               | Some s \<Rightarrow> \<not> isl (fromisoformat rt (replace s ''Z'' ''+00:00'')))
              \<and> (case find_child (gpx_ns @ ''extensions'') trkpt of
                    None \<Rightarrow> True
                  | Some extensions \<Rightarrow>
                      (case find_child ''speed'' extensions of
                         None \<Rightarrow> True
                       | Some speed_elem \<Rightarrow> \<not> isl (float_text rt speed_elem)))))"

definition points_readable :: "runtime \<Rightarrow> xml \<Rightarrow> bool" where
  \<comment> \<open>every point of the track document is readable\<close>
  "points_readable rt tree =
     list_all (readable_point rt) (findall_desc (gpx_ns @ ''trkpt'') tree)"

definition point_holds :: "runtime \<Rightarrow> xml \<Rightarrow> trackpoint \<Rightarrow> bool" where
  \<comment> \<open>the track point holds what the point element says: the numbers of its \<^verbatim>\<open>lat\<close> and
     \<^verbatim>\<open>lon\<close> attributes (0 for a missing one), the number of its \<^verbatim>\<open>ele\<close> child (the
     integer 0 without one), the instant of its \<^verbatim>\<open>time\<close> child, with \<^verbatim>\<open>Z\<close> read as
     \<^verbatim>\<open>+00:00\<close>, and the number of the \<^verbatim>\<open>speed\<close> child of its \<^verbatim>\<open>extensions\<close> child, if
     there is one\<close>
  "point_holds rt trkpt tp =
     (float_attr rt trkpt ''lat'' = Inr (lat tp)
      \<and> float_attr rt trkpt ''lon'' = Inr (lon tp)
      \<and> (case find_child (gpx_ns @ ''ele'') trkpt of
            None \<Rightarrow> elevation tp = PyInt 0
          | Some ele_elem \<Rightarrow> map_sum id PyFloat (float_text rt ele_elem) = Inr (elevation tp))
      \<and> (case find_child (gpx_ns @ ''time'') trkpt of
            None \<Rightarrow> False
          | Some time_elem \<Rightarrow>
              (case etext time_elem of
                 None \<Rightarrow> False
               | Some s \<Rightarrow> fromisoformat rt (replace s ''Z'' ''+00:00'') = Inr (time tp)))
      \<and> (case find_child (gpx_ns @ ''extensions'') trkpt of
            None \<Rightarrow> speed tp = None
          | Some extensions \<Rightarrow>
              (case find_child ''speed'' extensions of
                 None \<Rightarrow> speed tp = None
               | Some speed_elem \<Rightarrow> map_sum id Some (float_text rt speed_elem) = Inr (speed tp))))"

definition has_dates :: "xml \<Rightarrow> bool" where
  "has_dates e = (str_attr e ''startDate'' \<noteq> [] \<and> str_attr e ''endDate'' \<noteq> [])"

definition dates_parse :: "runtime \<Rightarrow> xml \<Rightarrow> bool" where
  "dates_parse rt e =
     (\<not> isl (parse_apple_date rt (str_attr e ''startDate''))
      \<and> \<not> isl (parse_apple_date rt (str_attr e ''endDate'')))"

definition step :: "string \<Rightarrow> xml list \<Rightarrow> xml list" where
  \<comment> \<open>one step of an element path: the children with tag \<open>t\<close> of the elements \<open>es\<close>\<close>
  "step t es = filter (\<lambda>c. tag c = t) (concat (map children es))"

definition laps :: "xml \<Rightarrow> xml list" where
  \<comment> \<open>\<^verbatim>\<open>doc.findall('Activities/Activity/Lap')\<close>\<close>
  "laps doc = step ''Lap'' (step ''Activity'' (step ''Activities'' [doc]))"

definition lap_elems :: "string \<Rightarrow> xml \<Rightarrow> xml list" where
  \<comment> \<open>the elements with tag \<open>t\<close> directly under the lap\<close>
  "lap_elems t doc = step t (laps doc)"

definition track_points :: "xml \<Rightarrow> xml list" where
  \<comment> \<open>\<^verbatim>\<open>doc.findall('Activities/Activity/Lap/Track/Trackpoint')\<close>\<close>
  "track_points doc = step ''Trackpoint'' (step ''Track'' (laps doc))"

definition heart_rate_tags :: "string list" where
  "heart_rate_tags = [''AverageHeartRateBpm'', ''MaximumHeartRateBpm'', ''HeartRateBpm'']"

fun remove_heart_rate :: "xml \<Rightarrow> xml" where
  \<comment> \<open>the document without its heart-rate elements, at any depth\<close>
  "remove_heart_rate (Element t a x cs) =
     Element t a x (map remove_heart_rate (filter (\<lambda>c. tag c \<notin> set heart_rate_tags) cs))"

text \<open>
  The parts both builders put under the lap, named so that the shape of a built
  document can be stated: the calories element, the heart-rate summary, the track, and
  the document around them.
\<close>

definition truthy :: "pyfloat option \<Rightarrow> bool" where
  \<comment> \<open>\<^verbatim>\<open>if workout_data[key]:\<close> on an optional float: present and not zero\<close>
  "truthy x = (case x of None \<Rightarrow> False | Some v \<Rightarrow> v \<noteq> Finite 0)"

definition lap_distance :: "runtime \<Rightarrow> workout \<Rightarrow> xml list" where
  "lap_distance rt wd =
     (case distance wd of
        None \<Rightarrow> []
      | Some d \<Rightarrow>
          if float_truthy d
          then [text_elem ''DistanceMeters'' (str_of_float rt (float_mul d 1000))]
          else [])"

definition lap_calories :: "workout \<Rightarrow> fault + xml list" where
  "lap_calories wd =
     (case calories wd of
        None \<Rightarrow> Inr []
      | Some c \<Rightarrow>
          if float_truthy c
          then result_bind (int_of_float c) (\<lambda>i. Inr [text_elem ''Calories'' (str_int i)])
          else Inr [])"

definition lap_heart_rate :: "workout \<Rightarrow> fault + xml list" where
  "lap_heart_rate wd =
     (case heart_rate wd of
        None \<Rightarrow> Inr []
      | Some hr \<Rightarrow>
          result_bind (int_of_float (hr_avg hr)) (\<lambda>a.
            Inr [value_elem ''AverageHeartRateBpm'' (str_int a),
                 value_elem ''MaximumHeartRateBpm'' (str_int (hr_max hr))]))"

definition lap_track :: "runtime \<Rightarrow> workout \<Rightarrow> trackpoint list \<Rightarrow> fault + xml list" where
  "lap_track rt wd tps =
     (if tps = [] then Inr []
      else result_bind (track_loop rt wd tps []) (\<lambda>track. Inr [Element ''Track'' [] None track]))"

definition lap_track_no_hr :: "runtime \<Rightarrow> trackpoint list \<Rightarrow> xml list" where
  "lap_track_no_hr rt tps =
     (if tps = [] then [] else [Element ''Track'' [] None (track_loop_no_hr rt tps [])])"

definition tcx_document :: "runtime \<Rightarrow> workout \<Rightarrow> xml list \<Rightarrow> xml" where
  "tcx_document rt wd lap_rest =
     Element ''TrainingCenterDatabase'' tcx_attrib None
       [Element ''Activities'' [] None
          [Element ''Activity'' [(''Sport'', sport wd)] None
             [text_elem ''Id'' (strftime_tcx (start_time wd)),
              Element ''Lap'' [(''StartTime'', strftime_tcx (start_time wd))] None
                ([text_elem ''TotalTimeSeconds''
                    (str_of_float rt (float_mul (duration_minutes wd) 60))]
                 @ lap_distance rt wd @ lap_rest),
              creator]]]"












subsection \<open>A sample export\<close>

text \<open>
  The worked examples run in a runtime that reads a plain run of digits as a number
  (and \<^verbatim>\<open>nan\<close> as NaN), prints an integral float as Python does, lowers the letters
  \<^verbatim>\<open>A\<close> to \<^verbatim>\<open>Z\<close> only, and knows no further date forms. It stands for Python on the
  texts of the examples, not beyond them.
\<close>

definition sample_runtime :: runtime where
  "sample_runtime =
     \<lparr>float_of_str = (\<lambda>s. case number s of Some n \<Rightarrow> Inr (Finite (of_nat n))
                            | None \<Rightarrow> if s = ''nan'' then Inr NaN else Inl ValueError),
      int_of_str = (\<lambda>s. case number s of Some n \<Rightarrow> Inr (int n) | None \<Rightarrow> Inl ValueError),
      str_of_float = (\<lambda>x. case x of Finite r \<Rightarrow> str_int \<lfloor>r\<rfloor> @ ''.0'' | PosInf \<Rightarrow> ''inf''
                            | NegInf \<Rightarrow> ''-inf'' | NaN \<Rightarrow> ''nan''),
      str_lower = map (\<lambda>c. if (65 :: nat) \<le> of_char c \<and> of_char c \<le> (90 :: nat)
                             then char_of (of_char c + (32 :: nat)) else c),
      isoformat_other = (\<lambda>s. Inl ValueError)\<rparr>"

definition sample_trkpt :: "string \<Rightarrow> string \<Rightarrow> string option \<Rightarrow> xml" where
  "sample_trkpt la lo ts =
     Element (gpx_ns @ ''trkpt'') [(''lon'', lo), (''lat'', la)] None
       ([Element (gpx_ns @ ''ele'') [] (Some ''100'') []]
        @ (case ts of None \<Rightarrow> [] | Some s \<Rightarrow> [Element (gpx_ns @ ''time'') [] (Some s) []]))"

definition sample_gpx :: xml where
  \<comment> \<open>three points, the third without a \<^verbatim>\<open>time\<close> child\<close>
  "sample_gpx =
     Element (gpx_ns @ ''gpx'') [(''version'', ''1.1'')] None
       [Element (gpx_ns @ ''trk'') [] None
          [Element (gpx_ns @ ''trkseg'') [] None
             [sample_trkpt ''51'' ''2'' (Some ''2024-01-15T10:00:00Z''),
              sample_trkpt ''52'' ''3'' (Some ''2024-01-15T10:00:10Z''),
              sample_trkpt ''53'' ''4'' None]]]"

definition sample_route :: path where
  "sample_route = [''export'', ''workout-routes'', ''route.gpx'']"

definition broken_route :: path where
  "broken_route = [''export'', ''workout-routes'', ''broken.gpx'']"

definition blank_time_gpx :: xml where
  \<comment> \<open>two points, each with a \<^verbatim>\<open>time\<close> child; that of the second is empty\<close>
  "blank_time_gpx =
     Element (gpx_ns @ ''gpx'') [(''version'', ''1.1'')] None
       [Element (gpx_ns @ ''trk'') [] None
          [Element (gpx_ns @ ''trkseg'') [] None
             [sample_trkpt ''51'' ''2'' (Some ''2024-01-15T10:00:00Z''),
              Element (gpx_ns @ ''trkpt'') [(''lon'', ''3''), (''lat'', ''52'')] None
                [Element (gpx_ns @ ''ele'') [] (Some ''100'') [],
                 Element (gpx_ns @ ''time'') [] None []]]]]"

definition blank_time_route :: path where
  "blank_time_route = [''export'', ''workout-routes'', ''blank.gpx'']"

definition long_route :: path where
  \<comment> \<open>a file name of 300 characters, more than a file system allows\<close>
  "long_route = [''export'', ''workout-routes'', replicate 300 CHR ''a'' @ ''.gpx'']"

definition sample_fs :: "xml \<Rightarrow> filesystem" where
  \<comment> \<open>an export directory with the given archive, two track files and one broken track file;
     looking up the over-long name raises, and nothing can be written under \<^verbatim>\<open>locked\<close>\<close>
  "sample_fs archive =
     \<lparr>xml_files = (\<lambda>p. if p = [''export'', ''export.xml''] then Some (Inr archive)
                         else if p = sample_route then Some (Inr sample_gpx)
                         else if p = broken_route then Some (Inl ParseError)
                         else if p = blank_time_route then Some (Inr blank_time_gpx)
                         else None),
      stat_fault = (\<lambda>p. if p = long_route then Some OSError else None),
      mkdir_fault = (\<lambda>p. None),
      write_fault = (\<lambda>p. if take 1 p = [''locked''] then Some OSError else None)\<rparr>"

definition empty_world :: world where
  "empty_world = \<lparr>console = [], written = []\<rparr>"

definition sample_converter :: converter where
  "sample_converter = \<lparr>export_dir = [''export'']\<rparr>"

definition running_elem :: xml where
  "running_elem =
     Element ''Workout''
       [(''workoutActivityType'', ''HKWorkoutActivityTypeRunning''), (''duration'', ''30''),
        (''sourceName'', ''Bharat's Apple Watch''),
        (''startDate'', ''2024-01-15 10:00:00 +0000''),
        (''endDate'', ''2024-01-15 10:30:00 +0000'')] None
       [Element ''MetadataEntry'' [(''key'', ''HKElevationAscended''), (''value'', ''500 cm'')] None [],
        Element ''WorkoutStatistics''
          [(''type'', ''HKQuantityTypeIdentifierHeartRate''), (''average'', ''150''),
           (''minimum'', ''120''), (''maximum'', ''180'')] None [],
        Element ''WorkoutStatistics''
          [(''type'', ''HKQuantityTypeIdentifierDistanceWalkingRunning''), (''sum'', ''5'')] None [],
        Element ''WorkoutStatistics''
          [(''type'', ''HKQuantityTypeIdentifierActiveEnergyBurned''), (''sum'', ''300'')] None [],
        Element ''WorkoutRoute'' [] None
          [Element ''FileReference'' [(''path'', ''/workout-routes/route.gpx'')] None []]]"

definition walking_elem :: xml where
  "walking_elem =
     Element ''Workout''
       [(''workoutActivityType'', ''HKWorkoutActivityTypeWalking''), (''duration'', ''45''),
        (''sourceName'', ''Bharat's Apple Watch''),
        (''startDate'', ''2024-01-16 13:15:00 +0000''),
        (''endDate'', ''2024-01-16 14:00:00 +0000'')] None
       [Element ''WorkoutStatistics''
          [(''type'', ''HKQuantityTypeIdentifierDistanceWalkingRunning''), (''sum'', ''3'')] None []]"

definition strava_elem :: xml where
  "strava_elem =
     Element ''Workout''
       [(''workoutActivityType'', ''HKWorkoutActivityTypeRunning''), (''duration'', ''25''),
        (''sourceName'', ''Strava''),
        (''startDate'', ''2024-01-17 09:00:00 +0000''),
        (''endDate'', ''2024-01-17 09:25:00 +0000'')] None []"

definition no_end_elem :: xml where
  "no_end_elem =
     Element ''Workout''
       [(''workoutActivityType'', ''HKWorkoutActivityTypeRunning''), (''duration'', ''25''),
        (''sourceName'', ''Apple Watch''),
        (''startDate'', ''2024-01-18 09:00:00 +0000'')] None []"

definition bad_start_elem :: xml where
  "bad_start_elem =
     Element ''Workout''
       [(''workoutActivityType'', ''HKWorkoutActivityTypeRunning''), (''duration'', ''25''),
        (''sourceName'', ''Apple Watch''),
        (''startDate'', ''2024-13-15 10:00:00 +0000''),
        (''endDate'', ''2024-01-15 10:30:00 +0000'')] None []"

definition zero_distance_elem :: xml where
  \<comment> \<open>a workout whose distance statistic is there, with sum 0\<close>
  "zero_distance_elem =
     Element ''Workout''
       [(''workoutActivityType'', ''HKWorkoutActivityTypeWalking''), (''duration'', ''45''),
        (''sourceName'', ''Apple Watch''),
        (''startDate'', ''2024-01-16 13:15:00 +0000''),
        (''endDate'', ''2024-01-16 14:00:00 +0000'')] None
       [Element ''WorkoutStatistics''
          [(''type'', ''HKQuantityTypeIdentifierDistanceWalkingRunning''), (''sum'', ''0'')] None []]"

definition sample_archive :: "xml list \<Rightarrow> xml" where
  "sample_archive entries = Element ''HealthData'' [] None entries"

definition running_workout :: workout where
  "running_workout =
     \<lparr>sport = ''Running'',
      start_time = \<lparr>year = 2024, month = 1, day = 15, hour = 10, minute = 0, second = 0,
                     microsecond = 0, utcoffset = Some 0\<rparr>,
      end_time = \<lparr>year = 2024, month = 1, day = 15, hour = 10, minute = 30, second = 0,
                   microsecond = 0, utcoffset = Some 0\<rparr>,
      duration_minutes = Finite 30,
      heart_rate = Some \<lparr>hr_avg = Finite 150, hr_min = 120, hr_max = 180\<rparr>,
      distance = Some (Finite 5), calories = Some (Finite 300),
      elevation_gain = Some (Finite 5), gpx_file = Some sample_route\<rparr>"

definition walking_workout :: workout where
  "walking_workout =
     \<lparr>sport = ''Walking'',
      start_time = \<lparr>year = 2024, month = 1, day = 16, hour = 13, minute = 15, second = 0,
                     microsecond = 0, utcoffset = Some 0\<rparr>,
      end_time = \<lparr>year = 2024, month = 1, day = 16, hour = 14, minute = 0, second = 0,
                   microsecond = 0, utcoffset = Some 0\<rparr>,
      duration_minutes = Finite 45, heart_rate = None,
      distance = Some (Finite 3), calories = None, elevation_gain = None, gpx_file = None\<rparr>"

definition zero_distance_workout :: workout where
  "zero_distance_workout = walking_workout\<lparr>distance := Some (Finite 0)\<rparr>"



definition running_tcx :: xml where
  \<comment> \<open>the document of the running workout of the sample export\<close>
  "running_tcx =
     Element ''TrainingCenterDatabase'' tcx_attrib None
       [Element ''Activities'' [] None
          [Element ''Activity'' [(''Sport'', ''Running'')] None
             [Element ''Id'' [] (Some ''2024-01-15T10:00:00.000000Z'') [],
              Element ''Lap'' [(''StartTime'', ''2024-01-15T10:00:00.000000Z'')] None
                [Element ''TotalTimeSeconds'' [] (Some ''1800.0'') [],
                 Element ''DistanceMeters'' [] (Some ''5000.0'') [],
                 Element ''Calories'' [] (Some ''300'') [],
                 Element ''AverageHeartRateBpm'' [] None [Element ''Value'' [] (Some ''150'') []],
                 Element ''MaximumHeartRateBpm'' [] None [Element ''Value'' [] (Some ''180'') []],
                 Element ''Track'' [] None
                   [Element ''Trackpoint'' [] None
                      [Element ''Time'' [] (Some ''2024-01-15T10:00:00.000000Z'') [],
                       Element ''Position'' [] None
                         [Element ''LatitudeDegrees'' [] (Some ''51.0'') [],
                          Element ''LongitudeDegrees'' [] (Some ''2.0'') []],
                       Element ''AltitudeMeters'' [] (Some ''100.0'') [],
                       Element ''HeartRateBpm'' [] None [Element ''Value'' [] (Some ''150'') []]],
                    Element ''Trackpoint'' [] None
                      [Element ''Time'' [] (Some ''2024-01-15T10:00:10.000000Z'') [],
                       Element ''Position'' [] None
                         [Element ''LatitudeDegrees'' [] (Some ''52.0'') [],
                          Element ''LongitudeDegrees'' [] (Some ''3.0'') []],
                       Element ''AltitudeMeters'' [] (Some ''100.0'') [],
                       Element ''HeartRateBpm'' [] None [Element ''Value'' [] (Some ''150'') []]]]],
              creator]]]"


definition zero_distance_tcx :: xml where
  "zero_distance_tcx =
     Element ''TrainingCenterDatabase'' tcx_attrib None
       [Element ''Activities'' [] None
          [Element ''Activity'' [(''Sport'', ''Walking'')] None
             [Element ''Id'' [] (Some ''2024-01-16T13:15:00.000000Z'') [],
              Element ''Lap'' [(''StartTime'', ''2024-01-16T13:15:00.000000Z'')] None
                [Element ''TotalTimeSeconds'' [] (Some ''2700.0'') []],
              creator]]]"

section \<open>Properties\<close>

subsection \<open>Activity types\<close>

text \<open>
  C8. The activity-type mapper is total: each of the five known identifiers maps to its
  category (Hiking to Other), and every other string, the empty one included, maps to
  Other.
\<close>

theorem convert_activity_type_total:
  "convert_activity_type ''HKWorkoutActivityTypeRunning'' = ''Running''
   \<and> convert_activity_type ''HKWorkoutActivityTypeWalking'' = ''Walking''
   \<and> convert_activity_type ''HKWorkoutActivityTypeCycling'' = ''Biking''
   \<and> convert_activity_type ''HKWorkoutActivityTypeSwimming'' = ''Swimming''
   \<and> convert_activity_type ''HKWorkoutActivityTypeHiking'' = ''Other''
   \<and> (s \<notin> {''HKWorkoutActivityTypeRunning'', ''HKWorkoutActivityTypeWalking'',
            ''HKWorkoutActivityTypeCycling'', ''HKWorkoutActivityTypeHiking'',
            ''HKWorkoutActivityTypeSwimming''}
        \<longrightarrow> convert_activity_type s = ''Other'')"
  by (simp add: convert_activity_type_def mapping_def)

theorem convert_activity_type_total_witness:
  "'''' \<notin> {''HKWorkoutActivityTypeRunning'', ''HKWorkoutActivityTypeWalking'',
            ''HKWorkoutActivityTypeCycling'', ''HKWorkoutActivityTypeHiking'',
            ''HKWorkoutActivityTypeSwimming''}
   \<and> convert_activity_type '''' = ''Other''
   \<and> convert_activity_type ''HKWorkoutActivityTypeUnknown'' = ''Other''"
  using convert_activity_type_total [of "''''"]
        convert_activity_type_total [of "''HKWorkoutActivityTypeUnknown''"]
  by simp

subsection \<open>The date parser\<close>

lemma shaped_Cons:
  "shaped (p # ps) s =
     (\<exists>c cs. s = c # cs \<and> (if p = CHR ''9'' then is_digit c
       else if p = CHR ''+'' then c = CHR ''+'' \<or> c = CHR ''-''
       else c = p) \<and> shaped ps cs)"
  by (cases s) auto

lemma shaped_Nil: "shaped [] s = (s = [])"
  by (cases s) auto

lemma digit_val_le: "is_digit c \<Longrightarrow> digit_val c \<le> 9"
  by (auto simp: is_digit_def digit_val_def)

lemma year_le:
  "is_digit a \<Longrightarrow> is_digit b \<Longrightarrow> is_digit c \<Longrightarrow> is_digit d \<Longrightarrow>
   digit_val d + (10 * digit_val c + (100 * digit_val b + 1000 * digit_val a)) \<le> 9999"
  using digit_val_le [of a] digit_val_le [of b] digit_val_le [of c] digit_val_le [of d]
  by linarith

lemma shape_explicit:
  assumes "apple_date_shape s"
  shows "\<exists>y1 y2 y3 y4 m1 m2 d1 d2 h1 h2 i1 i2 s1 s2 sg z1 z2 z3 z4.
    s = [y1, y2, y3, y4, CHR ''-'', m1, m2, CHR ''-'', d1, d2, CHR '' '',
         h1, h2, CHR '':'', i1, i2, CHR '':'', s1, s2, CHR '' '', sg, z1, z2, z3, z4]
    \<and> list_all is_digit [y1, y2, y3, y4, m1, m2, d1, d2, h1, h2, i1, i2, s1, s2, z1, z2, z3, z4]
    \<and> (sg = CHR ''+'' \<or> sg = CHR ''-'')"
  using assms unfolding apple_date_shape_def shaped_Cons shaped_Nil
  by (elim exE conjE) simp

text \<open>
  C4 (as amended). On every text of the shape \<^verbatim>\<open>YYYY-MM-DD HH:MM:SS +HHMM\<close> (either
  sign), the source-date parser returns a timezone-aware instant when the fields are a
  calendar date, a time of day and an offset of less than a day, and fails with
  \<open>ValueError\<close> otherwise. Nothing is said of texts of other shapes.
\<close>

theorem parse_apple_date_shape:
  assumes "apple_date_shape s"
  shows "(apple_date_in_range s \<longrightarrow>
           (\<exists>dt. parse_apple_date rt s = Inr dt \<and> utcoffset dt \<noteq> None))
       \<and> (\<not> apple_date_in_range s \<longrightarrow> parse_apple_date rt s = Inl ValueError)"
proof -
  from shape_explicit [OF assms]
  obtain y1 y2 y3 y4 m1 m2 d1 d2 h1 h2 i1 i2 s1 s2 sg z1 z2 z3 z4 where
    s: "s = [y1, y2, y3, y4, CHR ''-'', m1, m2, CHR ''-'', d1, d2, CHR '' '',
             h1, h2, CHR '':'', i1, i2, CHR '':'', s1, s2, CHR '' '', sg, z1, z2, z3, z4]"
    and dg: "list_all is_digit
               [y1, y2, y3, y4, m1, m2, d1, d2, h1, h2, i1, i2, s1, s2, z1, z2, z3, z4]"
    and sg: "sg = CHR ''+'' \<or> sg = CHR ''-''"
    by blast
  let ?off = "(if sg = CHR ''-'' then - 1 else 1)
                * (int (field s 21 2) * 3600 + int (field s 23 2) * 60)"
  have d: "date_fields (take 10 s) = Some (field s 0 4, field s 5 2, field s 8 2)"
    using dg by (simp add: s date_fields_def number_def field_def)
  have t: "time_fields (take 8 (drop 11 s)) = Some (field s 11 2, field s 14 2, field s 17 2)"
    using dg by (simp add: s time_fields_def number_def field_def)
  have z: "offset_fields (drop 20 s) = Some ?off"
    using dg sg by (simp add: s offset_fields_def number_def field_def Let_def)
  have r: "drop 19 s = CHR '' '' # drop 20 s" "length s = 25" "s ! 10 = CHR '' ''"
    by (simp_all add: s)
  have y: "field s 0 4 \<le> 9999"
    using dg year_le [of y1 y2 y3 y4] by (simp add: s field_def)
  have p: "parse_apple_date rt s =
      new_datetime (field s 0 4, field s 5 2, field s 8 2)
        (field s 11 2, field s 14 2, field s 17 2) (Some ?off)"
    by (simp add: parse_apple_date_def fromisoformat_def d t r z)
  have a: "\<bar>?off\<bar> \<ge> 86400 \<longleftrightarrow> \<not> 60 * field s 21 2 + field s 23 2 < 1440"
    by (simp add: abs_mult) linarith
  show ?thesis
    unfolding p using y a by (simp add: new_datetime_def apple_date_in_range_def)
qed

theorem parse_apple_date_shape_witness:
  "apple_date_shape ''2022-10-06 20:04:10 +0100''
   \<and> apple_date_in_range ''2022-10-06 20:04:10 +0100''
   \<and> (\<exists>dt. parse_apple_date sample_runtime ''2022-10-06 20:04:10 +0100'' = Inr dt
            \<and> utcoffset dt \<noteq> None)"
proof -
  have h: "apple_date_shape ''2022-10-06 20:04:10 +0100''" by code_simp
  have i: "apple_date_in_range ''2022-10-06 20:04:10 +0100''" by code_simp
  show ?thesis using h i parse_apple_date_shape [OF h, of sample_runtime] by simp
qed

text \<open>
  The claim as stated fails both ways: a text of the shape with month 13 is refused, and
  the ISO form with \<^verbatim>\<open>T\<close> and a colon in the offset (the form \<^verbatim>\<open>parse_gpx_file\<close> itself
  feeds to the same function) is accepted.
\<close>

theorem parse_apple_date_counterexample:
  "apple_date_shape ''2024-13-15 10:00:00 +0000''
   \<and> parse_apple_date sample_runtime ''2024-13-15 10:00:00 +0000'' = Inl ValueError
   \<and> \<not> apple_date_shape ''2024-01-15T10:00:00+00:00''
   \<and> parse_apple_date sample_runtime ''2024-01-15T10:00:00+00:00'' =
       Inr \<lparr>year = 2024, month = 1, day = 15, hour = 10, minute = 0, second = 0,
            microsecond = 0, utcoffset = Some 0\<rparr>"
  by code_simp

subsection \<open>Faults and the track parser's cases\<close>

lemma result_bind_Inr:
  "result_bind r f = Inr v \<longleftrightarrow> (\<exists>x. r = Inr x \<and> f x = Inr v)"
  by (cases r) (auto simp: result_bind_def)

lemma result_bind_simps [simp]:
  "result_bind (Inl e) f = Inl e" "result_bind (Inr x) f = f x"
  by (simp_all add: result_bind_def)

lemma parse_gpx_file_cases:
  "parse_gpx_file rt fs gpx w =
     (case gpx of
        None \<Rightarrow> (Inr [], w)
      | Some p \<Rightarrow>
          (case stat_fault fs p of
             Some e \<Rightarrow> (Inl e, w)
           | None \<Rightarrow>
               if xml_files fs p = None then (Inr [], w)
               else (case read_trackpoints rt fs p of
                       Inl e \<Rightarrow> (Inr [], w\<lparr>console := console w @ [GpxError p e]\<rparr>)
                     | Inr tps \<Rightarrow> (Inr tps, w))))"
  by (simp add: parse_gpx_file_def path_exists_def io_return_def try_except_def io_lift_def
      io_bind_def log_event_def split: option.splits sum.splits)

lemma parse_gpx_file_result:
  "\<exists>r w'. parse_gpx_file rt fs gpx w = (r, w')"
  by (cases "parse_gpx_file rt fs gpx w") auto

subsection \<open>The sample export, evaluated\<close>

lemma sample_fs_faults:
  "mkdir_fault (sample_fs a) p = None"
  "write_fault (sample_fs a) p = (if take 1 p = [''locked''] then Some OSError else None)"
  "stat_fault (sample_fs a) p = (if p = long_route then Some OSError else None)"
  by (simp_all add: sample_fs_def)

lemma long_route_size: "(length long_route, length (last long_route)) = (3, 304)"
  by (simp add: long_route_def)

lemma sample_routes_short:
  "[''export'', ''workout-routes'', ''route.gpx''] \<noteq> long_route"
  "[''export'', ''workout-routes'', ''broken.gpx''] \<noteq> long_route"
  "[''nonexistent.gpx''] \<noteq> long_route"
  "[''export'', ''workout-routes'', ''blank.gpx''] \<noteq> long_route"
  by (rule notI, drule arg_cong [where f = "\<lambda>p. (length p, length (last p))"],
      simp add: long_route_size)+

lemma sample_fs_files:
  "xml_files (sample_fs a) sample_route = Some (Inr sample_gpx)"
  "xml_files (sample_fs a) broken_route = Some (Inl ParseError)"
  "xml_files (sample_fs a) [''nonexistent.gpx''] = None"
  "xml_files (sample_fs a) blank_time_route = Some (Inr blank_time_gpx)"
  "xml_files (sample_fs a) long_route = None"
proof -
  have "long_route \<noteq> [''export'', ''export.xml'']" "long_route \<noteq> sample_route"
    "long_route \<noteq> broken_route" "long_route \<noteq> blank_time_route"
    unfolding sample_route_def broken_route_def blank_time_route_def
    by (rule notI, drule arg_cong [where f = "\<lambda>p. (length p, length (last p))"],
        simp add: long_route_size)+
  then show "xml_files (sample_fs a) long_route = None"
    by (simp add: sample_fs_def)
qed (simp_all add: sample_fs_def sample_route_def broken_route_def blank_time_route_def)

lemma sample_fs_exists:
  "path_exists (sample_fs a) sample_route = Inr True"
  "path_exists (sample_fs a) broken_route = Inr True"
  "path_exists (sample_fs a) [''nonexistent.gpx''] = Inr False"
  "path_exists (sample_fs a) blank_time_route = Inr True"
  "path_exists (sample_fs a) long_route = Inl OSError"
  by (simp_all add: path_exists_def sample_fs_files sample_fs_faults sample_routes_short
      sample_routes_short [folded sample_route_def] sample_routes_short [folded broken_route_def]
      sample_routes_short [folded blank_time_route_def])

lemma replicate_num: "replicate (numeral k) x = x # replicate (pred_numeral k) x"
  by (simp add: numeral_eq_Suc)

lemmas eval_defs = replicate_num sample_routes_short
  sample_runtime_def sample_fs_def sample_gpx_def sample_trkpt_def sample_route_def
  broken_route_def blank_time_route_def empty_world_def running_workout_def walking_workout_def
  gpx_ns_def read_trackpoints_def et_parse_def findall_desc_def find_child_def
  trackpoint_of_def float_attr_def int_attr_def str_attr_def float_text_def elem_get_def
  fromisoformat_def date_fields_def time_fields_def offset_fields_def new_datetime_def
  number_def is_digit_def digit_val_def days_in_month_def is_leap_def
  str_nat.simps str_int_def zfill_def digit_char_def strftime_tcx_def strftime_file_def
  float_mul_def float_div_def float_truthy_def int_of_float_def str_num_def
  text_elem_def value_elem_def creator_def Let_def

lemma read_sample_trackpoints:
  "read_trackpoints sample_runtime (sample_fs a) sample_route =
     Inr [\<lparr>lat = Finite 51, lon = Finite 2, elevation = PyFloat (Finite 100),
            time = \<lparr>year = 2024, month = 1, day = 15, hour = 10, minute = 0, second = 0,
                     microsecond = 0, utcoffset = Some 0\<rparr>, speed = None\<rparr>,
          \<lparr>lat = Finite 52, lon = Finite 3, elevation = PyFloat (Finite 100),
            time = \<lparr>year = 2024, month = 1, day = 15, hour = 10, minute = 0, second = 10,
                     microsecond = 0, utcoffset = Some 0\<rparr>, speed = None\<rparr>]"
  by (simp add: eval_defs)

lemma sample_workouts_parsed:
  "parse_apple_workouts sample_runtime
     (sample_fs (sample_archive [running_elem, walking_elem, strava_elem])) sample_converter
   = Inr [running_workout, walking_workout]"
  by (simp add: parse_apple_workouts_def export_xml_def sample_converter_def sample_archive_def
      running_elem_def walking_elem_def strava_elem_def is_apple_watch_def
      extract_workout_data_def parse_apple_date_def workout_statistic_def elevation_ascended_def
      elevation_entry_def route_file_def route_reference_def convert_activity_type_def
      mapping_def routes_dir_def eval_defs)

lemma running_tcx_built:
  "create_tcx sample_runtime (sample_fs a) running_workout w
     = (Inr running_tcx, w)"
  by (simp add: create_tcx_def parse_gpx_file_cases read_sample_trackpoints [unfolded sample_route_def]
      running_tcx_def io_bind_def io_lift_def io_return_def eval_defs)

lemma running_tcx_no_hr_built:
  "create_tcx_no_hr sample_runtime (sample_fs a) running_workout w
     = (Inr (remove_heart_rate running_tcx), w)"
  by (simp add: create_tcx_no_hr_def parse_gpx_file_cases read_sample_trackpoints [unfolded sample_route_def]
      running_tcx_def io_bind_def io_lift_def io_return_def heart_rate_tags_def eval_defs)


lemma zero_distance_built:
  "extract_workout_data sample_runtime sample_converter zero_distance_elem
     = Inr (Some zero_distance_workout)"
  "create_tcx sample_runtime (sample_fs a) zero_distance_workout w
     = (Inr zero_distance_tcx, w)"
  "create_tcx_no_hr sample_runtime (sample_fs a) zero_distance_workout w
     = (Inr zero_distance_tcx, w)"
  "lap_elems ''DistanceMeters'' zero_distance_tcx = []"
     apply (simp add: extract_workout_data_def zero_distance_elem_def zero_distance_workout_def
      parse_apple_date_def workout_statistic_def elevation_ascended_def elevation_entry_def
      route_file_def route_reference_def convert_activity_type_def mapping_def sample_converter_def
      eval_defs)
    apply (simp add: create_tcx_def parse_gpx_file_cases zero_distance_workout_def
      zero_distance_tcx_def io_bind_def io_lift_def io_return_def eval_defs)
   apply (simp add: create_tcx_no_hr_def parse_gpx_file_cases zero_distance_workout_def
      zero_distance_tcx_def io_bind_def io_lift_def io_return_def eval_defs)
  apply (simp add: lap_elems_def laps_def step_def zero_distance_tcx_def creator_def)
  done


subsection \<open>The track parser\<close>

text \<open>
  Where the existence test on the path completes, the track parser soft-fails: it returns
  the empty sequence, and logs nothing, when the path is absent or no file is there; when
  the file is there but reading it raises, the fault is logged and the sequence is empty;
  otherwise it returns what was read.
\<close>

lemma parse_gpx_file_guarded:
  "parse_gpx_file rt fs None w = (Inr [], w)"
  "path_exists fs p = Inr False \<Longrightarrow> parse_gpx_file rt fs (Some p) w = (Inr [], w)"
  "path_exists fs p = Inr True \<Longrightarrow> read_trackpoints rt fs p = Inl e \<Longrightarrow>
     parse_gpx_file rt fs (Some p) w = (Inr [], w\<lparr>console := console w @ [GpxError p e]\<rparr>)"
  "path_exists fs p = Inr True \<Longrightarrow> read_trackpoints rt fs p = Inr tps \<Longrightarrow>
     parse_gpx_file rt fs (Some p) w = (Inr tps, w)"
  by (auto simp: parse_gpx_file_cases path_exists_def split: option.splits sum.splits)

text \<open>
  C3. The claim is that the track parser propagates no fault, whatever the path, and
  returns the empty sequence when no file is there. The code misses it where the
  existence test itself raises, since that test stands before the guarded block: for the
  route whose file name is longer than the file system allows, no such file exists, and
  the parser raises \<^verbatim>\<open>OSError\<close> instead of returning the empty sequence.
\<close>

theorem parse_gpx_file_raises_before_guard:
  "xml_files (sample_fs sample_gpx) long_route = None
   \<and> path_exists (sample_fs sample_gpx) long_route = Inl OSError
   \<and> parse_gpx_file sample_runtime (sample_fs sample_gpx) (Some long_route) empty_world
       = (Inl OSError, empty_world)"
  by (simp add: parse_gpx_file_cases sample_fs_files sample_fs_faults sample_fs_exists)

lemma trackpoints_loop_filter:
  assumes "\<forall>trkpt \<in> set pts. \<not> isl (trackpoint_of rt trkpt)"
  shows "\<exists>tps. trackpoints_loop rt pts acc = Inr (acc @ tps)
           \<and> map (\<lambda>tp. Inr (Some tp)) tps = map (trackpoint_of rt) (filter has_time pts)"
  using assms
proof (induction pts arbitrary: acc)
  case Nil
  then show ?case by simp
next
  case (Cons trkpt pts)
  from Cons.prems obtain r where r: "trackpoint_of rt trkpt = Inr r"
    by (cases "trackpoint_of rt trkpt") auto
  have t: "has_time trkpt \<longleftrightarrow> r \<noteq> None"
    using r by (auto simp: trackpoint_of_def has_time_def result_bind_def
        split: sum.splits option.splits)
  from Cons.prems have "\<forall>x \<in> set pts. \<not> isl (trackpoint_of rt x)" by simp
  from Cons.IH [OF this, of "case r of None \<Rightarrow> acc | Some p \<Rightarrow> acc @ [p]"]
  obtain tps where tps:
    "trackpoints_loop rt pts (case r of None \<Rightarrow> acc | Some p \<Rightarrow> acc @ [p])
       = Inr ((case r of None \<Rightarrow> acc | Some p \<Rightarrow> acc @ [p]) @ tps)"
    "map (\<lambda>tp. Inr (Some tp)) tps = map (trackpoint_of rt) (filter has_time pts)"
    by blast
  show ?case
  proof (cases r)
    case None
    with r t tps show ?thesis by (simp add: result_bind_def)
  next
    case (Some p)
    with r t tps show ?thesis by (simp add: result_bind_def)
  qed
qed

lemma readable_point_no_fault:
  "readable_point rt trkpt \<longleftrightarrow> \<not> isl (trackpoint_of rt trkpt)"
  unfolding readable_point_def trackpoint_of_def
  by (cases "float_attr rt trkpt ''lat''"; cases "float_attr rt trkpt ''lon''")
     (auto simp: result_bind_def split: option.splits sum.splits)

lemma trackpoints_loop_fault:
  assumes "\<exists>trkpt \<in> set pts. isl (trackpoint_of rt trkpt)"
  shows "\<exists>e. trackpoints_loop rt pts acc = Inl e"
  using assms
proof (induction pts arbitrary: acc)
  case Nil
  then show ?case by simp
next
  case (Cons trkpt pts)
  show ?case
  proof (cases "trackpoint_of rt trkpt")
    case (Inl e)
    then show ?thesis by simp
  next
    case (Inr r)
    with Cons.prems have "\<exists>x \<in> set pts. isl (trackpoint_of rt x)" by auto
    from Cons.IH [OF this] Inr show ?thesis by simp
  qed
qed

lemma trackpoint_of_holds:
  assumes "trackpoint_of rt trkpt = Inr (Some tp)"
  shows "point_holds rt trkpt tp"
proof -
  from assms obtain la lo el where
    la: "float_attr rt trkpt ''lat'' = Inr la" and lo: "float_attr rt trkpt ''lon'' = Inr lo"
    and el: "(case find_child (gpx_ns @ ''ele'') trkpt of
          None \<Rightarrow> Inr (PyInt 0)
        | Some ele_elem \<Rightarrow> result_bind (float_text rt ele_elem) (\<lambda>f. Inr (PyFloat f))) = Inr el"
    and r: "(case find_child (gpx_ns @ ''time'') trkpt of
       None \<Rightarrow> Inr None
     | Some time_elem \<Rightarrow>
         result_bind
           (case etext time_elem of
              None \<Rightarrow> Inl AttributeError
            | Some s \<Rightarrow> fromisoformat rt (replace s ''Z'' ''+00:00'')) (\<lambda>timestamp.
         result_bind
           (case find_child (gpx_ns @ ''extensions'') trkpt of
              None \<Rightarrow> Inr None
            | Some extensions \<Rightarrow>
                (case find_child ''speed'' extensions of
                   None \<Rightarrow> Inr None
                 | Some speed_elem \<Rightarrow> result_bind (float_text rt speed_elem) (\<lambda>f. Inr (Some f))))
           (\<lambda>sp.
         Inr (Some \<lparr>lat = la, lon = lo, elevation = el, time = timestamp, speed = sp\<rparr>))))
       = Inr (Some tp)"
    unfolding trackpoint_of_def result_bind_Inr by blast
  from r obtain time_elem ts sp where
    te: "find_child (gpx_ns @ ''time'') trkpt = Some time_elem"
    and ts: "(case etext time_elem of
              None \<Rightarrow> Inl AttributeError
            | Some s \<Rightarrow> fromisoformat rt (replace s ''Z'' ''+00:00'')) = Inr ts"
    and sp: "(case find_child (gpx_ns @ ''extensions'') trkpt of
              None \<Rightarrow> Inr None
            | Some extensions \<Rightarrow>
                (case find_child ''speed'' extensions of
                   None \<Rightarrow> Inr None
                 | Some speed_elem \<Rightarrow> result_bind (float_text rt speed_elem) (\<lambda>f. Inr (Some f))))
             = Inr sp"
    and tp: "tp = \<lparr>lat = la, lon = lo, elevation = el, time = ts, speed = sp\<rparr>"
    by (cases "find_child (gpx_ns @ ''time'') trkpt") (auto simp: result_bind_Inr)
  have 1: "(case find_child (gpx_ns @ ''ele'') trkpt of
            None \<Rightarrow> elevation tp = PyInt 0
          | Some ele_elem \<Rightarrow> map_sum id PyFloat (float_text rt ele_elem) = Inr (elevation tp))"
    using el tp by (auto simp: result_bind_Inr split: option.splits)
  have 2: "(case etext time_elem of
                 None \<Rightarrow> False
               | Some s \<Rightarrow> fromisoformat rt (replace s ''Z'' ''+00:00'') = Inr (time tp))"
    using ts tp by (auto split: option.splits)
  have 3: "(case find_child (gpx_ns @ ''extensions'') trkpt of
            None \<Rightarrow> speed tp = None
          | Some extensions \<Rightarrow>
              (case find_child ''speed'' extensions of
                 None \<Rightarrow> speed tp = None
               | Some speed_elem \<Rightarrow> map_sum id Some (float_text rt speed_elem) = Inr (speed tp)))"
    using sp tp by (auto simp: result_bind_Inr split: option.splits)
  from tp have l: "lat tp = la" "lon tp = lo" by simp_all
  from la lo l te 1 2 3 show ?thesis
    by (simp add: point_holds_def)
qed

lemma points_hold:
  assumes "map (\<lambda>tp. Inr (Some tp)) tps = map (trackpoint_of rt) pts"
  shows "list_all2 (point_holds rt) pts tps"
proof -
  from assms have l: "length tps = length pts"
    by (metis length_map)
  have "point_holds rt (pts ! i) (tps ! i)" if "i < length pts" for i
  proof -
    from assms have "map (\<lambda>tp. Inr (Some tp)) tps ! i = map (trackpoint_of rt) pts ! i"
      by simp
    with that l have "trackpoint_of rt (pts ! i) = Inr (Some (tps ! i))" by simp
    then show ?thesis by (rule trackpoint_of_holds)
  qed
  with l show ?thesis by (simp add: list_all2_conv_all_nth)
qed

text \<open>
  C6 (as amended). For a track file that is there and parses: when every point of the
  document is readable, the parsed sequence has one track point for each point element
  with a \<^verbatim>\<open>time\<close> child, in document order and holding what that element says; a point
  without a \<^verbatim>\<open>time\<close> child is left out and the scan goes on; nothing is sorted or
  merged, and nothing is logged. When some point is not readable, the fault is logged and
  the parsed sequence is empty.
\<close>

theorem parse_gpx_file_document_order:
  assumes "path_exists fs p = Inr True" and "xml_files fs p = Some (Inr tree)"
  shows "(points_readable rt tree \<longrightarrow>
            (\<exists>tps. parse_gpx_file rt fs (Some p) w = (Inr tps, w)
               \<and> list_all2 (point_holds rt)
                    (filter has_time (findall_desc (gpx_ns @ ''trkpt'') tree)) tps))
         \<and> (\<not> points_readable rt tree \<longrightarrow>
              (\<exists>e. parse_gpx_file rt fs (Some p) w
                      = (Inr [], w\<lparr>console := console w @ [GpxError p e]\<rparr>)))"
proof (intro conjI impI)
  let ?pts = "findall_desc (gpx_ns @ ''trkpt'') tree"
  from assms(2) have r: "read_trackpoints rt fs p = trackpoints_loop rt ?pts []"
    by (simp add: read_trackpoints_def et_parse_def)
  {
    assume "points_readable rt tree"
    then have "\<forall>trkpt \<in> set ?pts. \<not> isl (trackpoint_of rt trkpt)"
      by (simp add: points_readable_def list_all_iff readable_point_no_fault)
    from trackpoints_loop_filter [OF this, of "[]"] obtain tps where
      l: "trackpoints_loop rt ?pts [] = Inr tps"
      and m: "map (\<lambda>tp. Inr (Some tp)) tps = map (trackpoint_of rt) (filter has_time ?pts)"
      by auto
    from l r have "parse_gpx_file rt fs (Some p) w = (Inr tps, w)"
      using parse_gpx_file_guarded(4) [OF assms(1)] by simp
    with points_hold [OF m]
    show "\<exists>tps. parse_gpx_file rt fs (Some p) w = (Inr tps, w)
               \<and> list_all2 (point_holds rt) (filter has_time ?pts) tps"
      by blast
  }
  {
    assume "\<not> points_readable rt tree"
    then have "\<exists>trkpt \<in> set ?pts. isl (trackpoint_of rt trkpt)"
      by (simp add: points_readable_def list_all_iff readable_point_no_fault)
    from trackpoints_loop_fault [OF this, of "[]"] obtain e where
      "trackpoints_loop rt ?pts [] = Inl e"
      by blast
    with r have "parse_gpx_file rt fs (Some p) w
                   = (Inr [], w\<lparr>console := console w @ [GpxError p e]\<rparr>)"
      using parse_gpx_file_guarded(3) [OF assms(1)] by simp
    then show "\<exists>e. parse_gpx_file rt fs (Some p) w
                      = (Inr [], w\<lparr>console := console w @ [GpxError p e]\<rparr>)"
      by blast
  }
qed

lemma sample_track_points:
  "findall_desc (gpx_ns @ ''trkpt'') sample_gpx
       = [sample_trkpt ''51'' ''2'' (Some ''2024-01-15T10:00:00Z''),
          sample_trkpt ''52'' ''3'' (Some ''2024-01-15T10:00:10Z''),
          sample_trkpt ''53'' ''4'' None]"
  by (simp add: findall_desc_def sample_gpx_def sample_trkpt_def gpx_ns_def)

lemma sample_points_readable: "points_readable sample_runtime sample_gpx"
  unfolding points_readable_def sample_track_points
  by (simp add: readable_point_def sample_trkpt_def eval_defs)

lemma blank_time_points:
  "findall_desc (gpx_ns @ ''trkpt'') blank_time_gpx
       = [sample_trkpt ''51'' ''2'' (Some ''2024-01-15T10:00:00Z''),
          Element (gpx_ns @ ''trkpt'') [(''lon'', ''3''), (''lat'', ''52'')] None
            [Element (gpx_ns @ ''ele'') [] (Some ''100'') [],
             Element (gpx_ns @ ''time'') [] None []]]"
  by (simp add: findall_desc_def blank_time_gpx_def sample_trkpt_def gpx_ns_def)

lemma blank_time_unreadable: "\<not> points_readable sample_runtime blank_time_gpx"
  unfolding points_readable_def blank_time_points
  by (simp add: readable_point_def sample_trkpt_def eval_defs)

lemma read_blank_time_trackpoints:
  "read_trackpoints sample_runtime (sample_fs a) blank_time_route = Inl AttributeError"
  by (simp add: blank_time_gpx_def eval_defs)

text \<open>
  The three-point document whose third point has no timestamp gives its first two points,
  in order; the document whose second timestamp is empty gives none.
\<close>

theorem parse_gpx_file_document_order_witness:
  "path_exists (sample_fs sample_gpx) sample_route = Inr True
   \<and> xml_files (sample_fs sample_gpx) sample_route = Some (Inr sample_gpx)
   \<and> points_readable sample_runtime sample_gpx
   \<and> findall_desc (gpx_ns @ ''trkpt'') sample_gpx
       = [sample_trkpt ''51'' ''2'' (Some ''2024-01-15T10:00:00Z''),
          sample_trkpt ''52'' ''3'' (Some ''2024-01-15T10:00:10Z''),
          sample_trkpt ''53'' ''4'' None]
   \<and> parse_gpx_file sample_runtime (sample_fs sample_gpx) (Some sample_route) empty_world
       = (Inr [\<lparr>lat = Finite 51, lon = Finite 2, elevation = PyFloat (Finite 100),
                 time = \<lparr>year = 2024, month = 1, day = 15, hour = 10, minute = 0, second = 0,
                          microsecond = 0, utcoffset = Some 0\<rparr>, speed = None\<rparr>,
               \<lparr>lat = Finite 52, lon = Finite 3, elevation = PyFloat (Finite 100),
                 time = \<lparr>year = 2024, month = 1, day = 15, hour = 10, minute = 0, second = 10,
                          microsecond = 0, utcoffset = Some 0\<rparr>, speed = None\<rparr>],
          empty_world)
   \<and> list_all2 (point_holds sample_runtime)
        [sample_trkpt ''51'' ''2'' (Some ''2024-01-15T10:00:00Z''),
         sample_trkpt ''52'' ''3'' (Some ''2024-01-15T10:00:10Z'')]
        [\<lparr>lat = Finite 51, lon = Finite 2, elevation = PyFloat (Finite 100),
          time = \<lparr>year = 2024, month = 1, day = 15, hour = 10, minute = 0, second = 0,
                   microsecond = 0, utcoffset = Some 0\<rparr>, speed = None\<rparr>,
         \<lparr>lat = Finite 52, lon = Finite 3, elevation = PyFloat (Finite 100),
          time = \<lparr>year = 2024, month = 1, day = 15, hour = 10, minute = 0, second = 10,
                   microsecond = 0, utcoffset = Some 0\<rparr>, speed = None\<rparr>]
   \<and> path_exists (sample_fs sample_gpx) blank_time_route = Inr True
   \<and> xml_files (sample_fs sample_gpx) blank_time_route = Some (Inr blank_time_gpx)
   \<and> \<not> points_readable sample_runtime blank_time_gpx
   \<and> (\<exists>e. parse_gpx_file sample_runtime (sample_fs sample_gpx) (Some blank_time_route) empty_world
              = (Inr [], empty_world\<lparr>console := console empty_world
                                          @ [GpxError blank_time_route e]\<rparr>))"
proof -
  let ?fs = "sample_fs sample_gpx"
  let ?tps = "[\<lparr>lat = Finite 51, lon = Finite 2, elevation = PyFloat (Finite 100),
                 time = \<lparr>year = 2024, month = 1, day = 15, hour = 10, minute = 0, second = 0,
                          microsecond = 0, utcoffset = Some 0\<rparr>, speed = None\<rparr>,
               \<lparr>lat = Finite 52, lon = Finite 3, elevation = PyFloat (Finite 100),
                 time = \<lparr>year = 2024, month = 1, day = 15, hour = 10, minute = 0, second = 10,
                          microsecond = 0, utcoffset = Some 0\<rparr>, speed = None\<rparr>]"
  note x = sample_fs_exists(1) [of sample_gpx] and a = sample_fs_files(1) [of sample_gpx]
    and b = sample_points_readable and c = sample_track_points
  have d: "filter has_time (findall_desc (gpx_ns @ ''trkpt'') sample_gpx)
       = [sample_trkpt ''51'' ''2'' (Some ''2024-01-15T10:00:00Z''),
          sample_trkpt ''52'' ''3'' (Some ''2024-01-15T10:00:10Z'')]"
    unfolding c by (simp add: has_time_def find_child_def sample_trkpt_def gpx_ns_def)
  have e: "parse_gpx_file sample_runtime ?fs (Some sample_route) empty_world
             = (Inr ?tps, empty_world)"
    using parse_gpx_file_guarded(4) [OF x read_sample_trackpoints] .
  from parse_gpx_file_document_order [OF x a, of sample_runtime empty_world] b e
  have f: "list_all2 (point_holds sample_runtime)
             [sample_trkpt ''51'' ''2'' (Some ''2024-01-15T10:00:00Z''),
              sample_trkpt ''52'' ''3'' (Some ''2024-01-15T10:00:10Z'')] ?tps"
    unfolding d by auto
  note x' = sample_fs_exists(4) [of sample_gpx] and a' = sample_fs_files(4) [of sample_gpx]
    and b' = blank_time_unreadable
  from parse_gpx_file_document_order [OF x' a', of sample_runtime empty_world] b'
  have g: "\<exists>e. parse_gpx_file sample_runtime ?fs (Some blank_time_route) empty_world
              = (Inr [], empty_world\<lparr>console := console empty_world
                                          @ [GpxError blank_time_route e]\<rparr>)"
    by blast
  from x a b c e f x' a' b' g show ?thesis by blast
qed

text \<open>
  Both points of this document have a \<^verbatim>\<open>time\<close> child, and the parsed sequence is empty:
  the empty timestamp of the second makes the whole scan fail.
\<close>

theorem parse_gpx_file_order_counterexample:
  "filter has_time (findall_desc (gpx_ns @ ''trkpt'') blank_time_gpx)
     = findall_desc (gpx_ns @ ''trkpt'') blank_time_gpx
   \<and> length (findall_desc (gpx_ns @ ''trkpt'') blank_time_gpx) = 2
   \<and> parse_gpx_file sample_runtime (sample_fs sample_gpx) (Some blank_time_route) empty_world
       = (Inr [], \<lparr>console = [GpxError blank_time_route AttributeError], written = []\<rparr>)"
proof -
  have "parse_gpx_file sample_runtime (sample_fs sample_gpx) (Some blank_time_route) empty_world
       = (Inr [], \<lparr>console = [GpxError blank_time_route AttributeError], written = []\<rparr>)"
    using parse_gpx_file_guarded(3) [OF sample_fs_exists(4) read_blank_time_trackpoints,
        of sample_gpx empty_world]
    by (simp add: empty_world_def)
  then show ?thesis
    unfolding blank_time_points
    by (simp add: has_time_def find_child_def sample_trkpt_def gpx_ns_def)
qed

subsection \<open>Extraction\<close>

lemma workout_statistic_times:
  "workout_statistic rt stat wd = Inr wd' \<Longrightarrow>
     start_time wd' = start_time wd \<and> end_time wd' = end_time wd"
  by (auto simp: workout_statistic_def result_bind_Inr split: if_splits)

lemma workout_statistics_times:
  "workout_statistics rt stats wd = Inr wd' \<Longrightarrow>
     start_time wd' = start_time wd \<and> end_time wd' = end_time wd"
proof (induction stats arbitrary: wd)
  case Nil
  then show ?case by simp
next
  case (Cons stat stats)
  from Cons.prems obtain wd1 where
    "workout_statistic rt stat wd = Inr wd1" "workout_statistics rt stats wd1 = Inr wd'"
    by (auto simp: result_bind_Inr)
  with Cons.IH [of wd1] workout_statistic_times [of rt stat wd wd1] show ?case by simp
qed

lemma extract_Some:
  assumes "extract_workout_data rt self e = Inr (Some d)"
  shows "has_dates e
       \<and> parse_apple_date rt (str_attr e ''startDate'') = Inr (start_time d)
       \<and> parse_apple_date rt (str_attr e ''endDate'') = Inr (end_time d)"
proof -
  from assms have h: "has_dates e"
    by (auto simp: extract_workout_data_def has_dates_def result_bind_Inr split: if_splits)
  with assms obtain du sd ed wd el where
    sd: "parse_apple_date rt (str_attr e ''startDate'') = Inr sd"
    and ed: "parse_apple_date rt (str_attr e ''endDate'') = Inr ed"
    and wd: "workout_statistics rt (findall_desc ''WorkoutStatistics'' e)
            \<lparr>sport = convert_activity_type (str_attr e ''workoutActivityType''),
             start_time = sd, end_time = ed, duration_minutes = du,
             heart_rate = None, distance = None, calories = None, elevation_gain = None,
             gpx_file = None\<rparr> = Inr wd"
    and d: "d = wd\<lparr>elevation_gain := (case el of None \<Rightarrow> elevation_gain wd | Some m \<Rightarrow> Some m),
               gpx_file := route_file (routes_dir self) e\<rparr>"
    by (auto simp: extract_workout_data_def has_dates_def result_bind_Inr)
  from workout_statistics_times [OF wd] have "start_time wd = sd" "end_time wd = ed" by simp_all
  with h sd ed d show ?thesis by simp
qed

lemma extract_None:
  assumes "extract_workout_data rt self e = Inr None"
  shows "\<not> has_dates e"
  using assms
  by (auto simp: extract_workout_data_def has_dates_def result_bind_Inr split: if_splits)

lemma extract_missing:
  assumes "\<not> has_dates e" "\<not> isl (float_attr rt e ''duration'')"
  shows "extract_workout_data rt self e = Inr None"
  using assms
  by (cases "float_attr rt e ''duration''") (auto simp: extract_workout_data_def has_dates_def)

lemma extract_unparseable:
  assumes "has_dates e" "\<not> dates_parse rt e"
  shows "isl (extract_workout_data rt self e)"
  using assms
  by (cases "float_attr rt e ''duration''"; cases "parse_apple_date rt (str_attr e ''startDate'')";
      cases "parse_apple_date rt (str_attr e ''endDate'')")
     (auto simp: extract_workout_data_def has_dates_def dates_parse_def)

lemma workouts_loop_filter:
  assumes "workouts_loop rt self es acc = Inr ws"
  shows "map (\<lambda>d. Inr (Some d)) ws
         = map (\<lambda>d. Inr (Some d)) acc
           @ map (extract_workout_data rt self) (filter (\<lambda>e. is_apple_watch e \<and> has_dates e) es)"
  using assms
proof (induction es arbitrary: acc)
  case Nil
  then show ?case by simp
next
  case (Cons e es)
  show ?case
  proof (cases "is_apple_watch e")
    case False
    with Cons show ?thesis by simp
  next
    case True
    with Cons.prems obtain r where
      r: "extract_workout_data rt self e = Inr r"
      and l: "workouts_loop rt self es (case r of None \<Rightarrow> acc | Some d \<Rightarrow> acc @ [d]) = Inr ws"
      by (auto simp: result_bind_Inr)
    show ?thesis
    proof (cases r)
      case None
      with r have "\<not> has_dates e" by (simp add: extract_None)
      with Cons.IH [OF l] None show ?thesis by simp
    next
      case (Some d)
      with r have "has_dates e" using extract_Some by blast
      with Cons.IH [OF l] Some True r show ?thesis by simp
    qed
  qed
qed

lemma workouts_loop_parse:
  assumes "workouts_loop rt self es acc = Inr ws" "e \<in> set es" "is_apple_watch e" "has_dates e"
  shows "dates_parse rt e"
  using assms
proof (induction es arbitrary: acc)
  case Nil
  then show ?case by simp
next
  case (Cons x es)
  show ?case
  proof (cases "is_apple_watch x")
    case False
    with Cons show ?thesis by auto
  next
    case True
    with Cons.prems(1) obtain r where
      r: "extract_workout_data rt self x = Inr r"
      and l: "workouts_loop rt self es (case r of None \<Rightarrow> acc | Some d \<Rightarrow> acc @ [d]) = Inr ws"
      by (auto simp: result_bind_Inr)
    show ?thesis
    proof (cases "e = x")
      case True
      with r Cons.prems(4) extract_unparseable [of x rt self] show ?thesis by auto
    next
      case False
      with Cons.prems have "e \<in> set es" by simp
      from Cons.IH [OF l this Cons.prems(3,4)] show ?thesis .
    qed
  qed
qed

lemma workouts_loop_skip:
  assumes "\<not> is_apple_watch e"
  shows "workouts_loop rt self (xs @ e # ys) acc = workouts_loop rt self (xs @ ys) acc"
proof (induction xs arbitrary: acc)
  case Nil
  with assms show ?case by simp
next
  case (Cons x xs)
  then show ?case by (cases "extract_workout_data rt self x") simp_all
qed

text \<open>
  C2 (as amended). Extraction emits a record only if both boundary timestamps are
  present and parse, and the record carries the parsed instants. An entry missing either
  timestamp is dropped silently, once its duration has been read. An entry whose
  timestamps are present but do not both parse is not dropped: extraction raises. When
  the scan of the archive completes, the number of records is the number of qualifying
  entries whose timestamps are present and parse.
\<close>

theorem extract_workout_data_boundary_dates:
  "(\<forall>d. extract_workout_data rt self e = Inr (Some d) \<longrightarrow>
        has_dates e
        \<and> parse_apple_date rt (str_attr e ''startDate'') = Inr (start_time d)
        \<and> parse_apple_date rt (str_attr e ''endDate'') = Inr (end_time d))
   \<and> (\<not> has_dates e \<and> \<not> isl (float_attr rt e ''duration'') \<longrightarrow>
        extract_workout_data rt self e = Inr None)
   \<and> (has_dates e \<and> \<not> dates_parse rt e \<longrightarrow> isl (extract_workout_data rt self e))
   \<and> (\<forall>ws. workouts_loop rt self es [] = Inr ws \<longrightarrow>
        length ws
        = length (filter (\<lambda>e. is_apple_watch e \<and> has_dates e \<and> dates_parse rt e) es))"
proof (intro conjI allI impI)
  fix d assume "extract_workout_data rt self e = Inr (Some d)"
  from extract_Some [OF this]
  show "has_dates e"
    and "parse_apple_date rt (str_attr e ''startDate'') = Inr (start_time d)"
    and "parse_apple_date rt (str_attr e ''endDate'') = Inr (end_time d)"
    by simp_all
next
  assume "\<not> has_dates e \<and> \<not> isl (float_attr rt e ''duration'')"
  then show "extract_workout_data rt self e = Inr None"
    by (simp add: extract_missing)
next
  assume "has_dates e \<and> \<not> dates_parse rt e"
  then show "isl (extract_workout_data rt self e)"
    by (simp add: extract_unparseable)
next
  fix ws assume l: "workouts_loop rt self es [] = Inr ws"
  have "filter (\<lambda>e. is_apple_watch e \<and> has_dates e \<and> dates_parse rt e) es
        = filter (\<lambda>e. is_apple_watch e \<and> has_dates e) es"
    using workouts_loop_parse [OF l] by (intro filter_cong) auto
  moreover have "length (map (\<lambda>d. Inr (Some d) :: fault + workout option) ws)
        = length (map (extract_workout_data rt self)
                    (filter (\<lambda>e. is_apple_watch e \<and> has_dates e) es))"
    using workouts_loop_filter [OF l] by simp
  ultimately show "length ws
        = length (filter (\<lambda>e. is_apple_watch e \<and> has_dates e \<and> dates_parse rt e) es)"
    by simp
qed

theorem extract_workout_data_boundary_dates_witness:
  "extract_workout_data sample_runtime sample_converter running_elem = Inr (Some running_workout)
   \<and> has_dates running_elem
   \<and> parse_apple_date sample_runtime (str_attr running_elem ''startDate'')
       = Inr (start_time running_workout)
   \<and> parse_apple_date sample_runtime (str_attr running_elem ''endDate'')
       = Inr (end_time running_workout)
   \<and> \<not> has_dates no_end_elem \<and> \<not> isl (float_attr sample_runtime no_end_elem ''duration'')
   \<and> extract_workout_data sample_runtime sample_converter no_end_elem = Inr None
   \<and> has_dates bad_start_elem \<and> \<not> dates_parse sample_runtime bad_start_elem
   \<and> isl (extract_workout_data sample_runtime sample_converter bad_start_elem)
   \<and> workouts_loop sample_runtime sample_converter
         [running_elem, walking_elem, strava_elem, no_end_elem] []
       = Inr [running_workout, walking_workout]
   \<and> length (filter (\<lambda>e. is_apple_watch e \<and> has_dates e \<and> dates_parse sample_runtime e)
               [running_elem, walking_elem, strava_elem, no_end_elem]) = 2"
proof -
  have a: "extract_workout_data sample_runtime sample_converter running_elem
             = Inr (Some running_workout)"
    by code_simp
  have b: "\<not> has_dates no_end_elem \<and> \<not> isl (float_attr sample_runtime no_end_elem ''duration'')"
    by code_simp
  have c: "has_dates bad_start_elem \<and> \<not> dates_parse sample_runtime bad_start_elem"
    by code_simp
  have d: "workouts_loop sample_runtime sample_converter
             [running_elem, walking_elem, strava_elem, no_end_elem] []
           = Inr [running_workout, walking_workout]"
    by code_simp
  note th = extract_workout_data_boundary_dates
  from a th [of sample_runtime sample_converter running_elem]
  have e: "has_dates running_elem
      \<and> parse_apple_date sample_runtime (str_attr running_elem ''startDate'')
          = Inr (start_time running_workout)
      \<and> parse_apple_date sample_runtime (str_attr running_elem ''endDate'')
          = Inr (end_time running_workout)"
    by blast
  from b th [of sample_runtime sample_converter no_end_elem]
  have f: "extract_workout_data sample_runtime sample_converter no_end_elem = Inr None"
    by blast
  from c th [of sample_runtime sample_converter bad_start_elem]
  have g: "isl (extract_workout_data sample_runtime sample_converter bad_start_elem)"
    by blast
  from d th [of sample_runtime sample_converter running_elem
               "[running_elem, walking_elem, strava_elem, no_end_elem]"]
  have "length [running_workout, walking_workout]
        = length (filter (\<lambda>e. is_apple_watch e \<and> has_dates e \<and> dates_parse sample_runtime e)
                    [running_elem, walking_elem, strava_elem, no_end_elem])"
    by blast
  then have h: "length (filter (\<lambda>e. is_apple_watch e \<and> has_dates e \<and> dates_parse sample_runtime e)
                    [running_elem, walking_elem, strava_elem, no_end_elem]) = 2"
    by simp
  from a b c d e f g h show ?thesis by blast
qed

text \<open>
  As stated the claim fails: an entry whose \<^verbatim>\<open>startDate\<close> is present but is no date is not
  dropped silently. \<^verbatim>\<open>parse_apple_date\<close> raises, nothing catches it, and the whole
  extraction ends with the fault.
\<close>

theorem extract_workout_data_counterexample:
  "is_apple_watch bad_start_elem \<and> has_dates bad_start_elem
   \<and> extract_workout_data sample_runtime sample_converter bad_start_elem = Inl ValueError
   \<and> parse_apple_workouts sample_runtime
         (sample_fs (sample_archive [running_elem, bad_start_elem])) sample_converter
       = Inl ValueError"
  by code_simp

text \<open>
  C7 (as amended). An entry whose source name contains neither \<^verbatim>\<open>Apple Watch\<close> nor
  \<^verbatim>\<open>Bharat\<close> (an empty source name among them) is skipped entirely, whatever else it
  holds: the scan goes as if the entry were not there. When extraction completes, its
  output is, in archive order, what the entries yield whose source name contains one of
  the two and whose boundary timestamps are both present.
\<close>

theorem parse_apple_workouts_source_filter:
  "(str_attr e ''sourceName'' = [] \<longrightarrow> \<not> is_apple_watch e)
   \<and> (\<not> is_apple_watch e \<longrightarrow>
        workouts_loop rt self (xs @ e # ys) acc = workouts_loop rt self (xs @ ys) acc)
   \<and> (\<forall>tree ws. xml_files fs (export_xml self) = Some (Inr tree)
          \<and> parse_apple_workouts rt fs self = Inr ws \<longrightarrow>
        map (\<lambda>d. Inr (Some d)) ws
        = map (extract_workout_data rt self)
            (filter (\<lambda>e. is_apple_watch e \<and> has_dates e) (findall_desc ''Workout'' tree)))"
proof (intro conjI allI impI)
  assume "str_attr e ''sourceName'' = []"
  then show "\<not> is_apple_watch e" by (simp add: is_apple_watch_def)
next
  assume "\<not> is_apple_watch e"
  then show "workouts_loop rt self (xs @ e # ys) acc = workouts_loop rt self (xs @ ys) acc"
    by (rule workouts_loop_skip)
next
  fix tree ws
  assume "xml_files fs (export_xml self) = Some (Inr tree)
          \<and> parse_apple_workouts rt fs self = Inr ws"
  then have "workouts_loop rt self (findall_desc ''Workout'' tree) [] = Inr ws"
    by (auto simp: parse_apple_workouts_def et_parse_def)
  from workouts_loop_filter [OF this]
  show "map (\<lambda>d. Inr (Some d)) ws
        = map (extract_workout_data rt self)
            (filter (\<lambda>e. is_apple_watch e \<and> has_dates e) (findall_desc ''Workout'' tree))"
    by simp
qed

theorem parse_apple_workouts_source_filter_witness:
  "\<not> is_apple_watch strava_elem
   \<and> workouts_loop sample_runtime sample_converter ([running_elem] @ strava_elem # [walking_elem]) []
       = workouts_loop sample_runtime sample_converter ([running_elem] @ [walking_elem]) []
   \<and> xml_files (sample_fs (sample_archive [running_elem, walking_elem, strava_elem]))
         (export_xml sample_converter)
       = Some (Inr (sample_archive [running_elem, walking_elem, strava_elem]))
   \<and> parse_apple_workouts sample_runtime
         (sample_fs (sample_archive [running_elem, walking_elem, strava_elem])) sample_converter
       = Inr [running_workout, walking_workout]
   \<and> map (\<lambda>d. Inr (Some d)) [running_workout, walking_workout]
       = map (extract_workout_data sample_runtime sample_converter)
           (filter (\<lambda>e. is_apple_watch e \<and> has_dates e)
              (findall_desc ''Workout'' (sample_archive [running_elem, walking_elem, strava_elem])))"
proof -
  have a: "\<not> is_apple_watch strava_elem" by code_simp
  have b: "xml_files (sample_fs (sample_archive [running_elem, walking_elem, strava_elem]))
             (export_xml sample_converter)
           = Some (Inr (sample_archive [running_elem, walking_elem, strava_elem]))"
    by (simp add: sample_fs_def export_xml_def sample_converter_def)
  have c: "parse_apple_workouts sample_runtime
             (sample_fs (sample_archive [running_elem, walking_elem, strava_elem])) sample_converter
           = Inr [running_workout, walking_workout]"
    by (rule sample_workouts_parsed)
  note th = parse_apple_workouts_source_filter [of strava_elem sample_runtime sample_converter
        "[running_elem]" "[walking_elem]" "[]"
        "sample_fs (sample_archive [running_elem, walking_elem, strava_elem])"]
  from a th
  have d: "workouts_loop sample_runtime sample_converter
             ([running_elem] @ strava_elem # [walking_elem]) []
           = workouts_loop sample_runtime sample_converter ([running_elem] @ [walking_elem]) []"
    by blast
  from b c th
  have e: "map (\<lambda>d. Inr (Some d)) [running_workout, walking_workout]
       = map (extract_workout_data sample_runtime sample_converter)
           (filter (\<lambda>e. is_apple_watch e \<and> has_dates e)
              (findall_desc ''Workout'' (sample_archive [running_elem, walking_elem, strava_elem])))"
    by blast
  from a b c d e show ?thesis by blast
qed

text \<open>
  As stated the claim fails in one direction: an entry from an Apple Watch that has no
  \<^verbatim>\<open>endDate\<close> is not in the output.
\<close>

theorem parse_apple_workouts_counterexample:
  "is_apple_watch no_end_elem
   \<and> parse_apple_workouts sample_runtime (sample_fs (sample_archive [no_end_elem])) sample_converter
       = Inr []"
  by code_simp

subsection \<open>The document builders\<close>

lemma track_loop_cong:
  "map_option hr_avg (heart_rate wd) = map_option hr_avg (heart_rate wd') \<Longrightarrow>
   track_loop rt wd tps acc = track_loop rt wd' tps acc"
proof (induction tps arbitrary: acc)
  case Nil
  show ?case by simp
next
  case (Cons tp tps)
  from Cons.prems have
    "(case heart_rate wd of None \<Rightarrow> Inr []
      | Some hr \<Rightarrow> result_bind (int_of_float (hr_avg hr))
                     (\<lambda>a. Inr [value_elem ''HeartRateBpm'' (str_int a)]))
     = (case heart_rate wd' of None \<Rightarrow> Inr []
      | Some hr \<Rightarrow> result_bind (int_of_float (hr_avg hr))
                     (\<lambda>a. Inr [value_elem ''HeartRateBpm'' (str_int a)]))"
    by (cases "heart_rate wd"; cases "heart_rate wd'") auto
  with Cons.IH [OF Cons.prems] show ?case by simp
qed

text \<open>
  C10. Two workout records that differ only in the minimum of their heart-rate
  statistic give the same document (and the same diagnostics) in both builders.
\<close>

theorem heart_rate_minimum_unused:
  "create_tcx rt fs (wd\<lparr>heart_rate := Some (hr\<lparr>hr_min := m\<rparr>)\<rparr>)
     = create_tcx rt fs (wd\<lparr>heart_rate := Some (hr\<lparr>hr_min := m'\<rparr>)\<rparr>)
   \<and> create_tcx_no_hr rt fs (wd\<lparr>heart_rate := Some (hr\<lparr>hr_min := m\<rparr>)\<rparr>)
     = create_tcx_no_hr rt fs (wd\<lparr>heart_rate := Some (hr\<lparr>hr_min := m'\<rparr>)\<rparr>)"
proof -
  have "track_loop rt (wd\<lparr>heart_rate := Some (hr\<lparr>hr_min := m\<rparr>)\<rparr>) tps []
        = track_loop rt (wd\<lparr>heart_rate := Some (hr\<lparr>hr_min := m'\<rparr>)\<rparr>) tps []" for tps
    by (rule track_loop_cong) simp
  then show ?thesis
    by (simp add: create_tcx_def create_tcx_no_hr_def cong: if_cong)
qed

lemma track_loop_remove:
  assumes "track_loop rt wd tps acc = Inr trk"
  shows "map remove_heart_rate trk = track_loop_no_hr rt tps (map remove_heart_rate acc)"
  using assms
proof (induction tps arbitrary: acc)
  case Nil
  then show ?case by simp
next
  case (Cons tp tps)
  from Cons.prems obtain hr_elem where
    h: "(case heart_rate wd of None \<Rightarrow> Inr []
         | Some hr \<Rightarrow> result_bind (int_of_float (hr_avg hr))
                        (\<lambda>a. Inr [value_elem ''HeartRateBpm'' (str_int a)])) = Inr hr_elem"
    and l: "track_loop rt wd tps
              (acc @ [Element ''Trackpoint'' [] None
                 ([text_elem ''Time'' (strftime_tcx (time tp)),
                   Element ''Position'' [] None
                     [text_elem ''LatitudeDegrees'' (str_of_float rt (lat tp)),
                      text_elem ''LongitudeDegrees'' (str_of_float rt (lon tp))],
                   text_elem ''AltitudeMeters'' (str_num rt (elevation tp))]
                  @ hr_elem)]) = Inr trk"
    by (auto simp: result_bind_Inr)
  from h have "hr_elem = [] \<or> (\<exists>s. hr_elem = [value_elem ''HeartRateBpm'' s])"
    by (auto simp: result_bind_Inr split: option.splits)
  then have "filter (\<lambda>c. tag c \<notin> set heart_rate_tags) hr_elem = []"
    by (auto simp: value_elem_def heart_rate_tags_def)
  with Cons.IH [OF l] show ?case
    by (simp add: text_elem_def heart_rate_tags_def)
qed

lemma track_loop_tags:
  assumes "track_loop rt wd tps acc = Inr trk" "\<forall>e \<in> set acc. tag e = ''Trackpoint''"
  shows "\<forall>e \<in> set trk. tag e = ''Trackpoint''"
  using assms
proof (induction tps arbitrary: acc)
  case Nil
  then show ?case by simp
next
  case (Cons tp tps)
  from Cons.prems(1) obtain hr_elem where
    "track_loop rt wd tps
              (acc @ [Element ''Trackpoint'' [] None
                 ([text_elem ''Time'' (strftime_tcx (time tp)),
                   Element ''Position'' [] None
                     [text_elem ''LatitudeDegrees'' (str_of_float rt (lat tp)),
                      text_elem ''LongitudeDegrees'' (str_of_float rt (lon tp))],
                   text_elem ''AltitudeMeters'' (str_num rt (elevation tp))]
                  @ hr_elem)]) = Inr trk"
    by (auto simp: result_bind_Inr)
  from Cons.IH [OF this] Cons.prems(2) show ?case by simp
qed

lemma keep_trackpoints:
  "\<forall>e \<in> set trk. tag e = ''Trackpoint'' \<Longrightarrow>
   filter (\<lambda>c. tag c \<notin> set heart_rate_tags) trk = trk"
  by (induction trk) (simp_all add: heart_rate_tags_def)

lemma create_tcx_shape:
  assumes "fst (create_tcx rt fs wd w) = Inr doc"
  shows "\<exists>cal hrs tps trk w'.
           lap_calories wd = Inr cal \<and> lap_heart_rate wd = Inr hrs
           \<and> parse_gpx_file rt fs (gpx_file wd) w = (Inr tps, w')
           \<and> lap_track rt wd tps = Inr trk
           \<and> doc = tcx_document rt wd (cal @ hrs @ trk)
           \<and> create_tcx rt fs wd w = (Inr doc, w')"
proof -
  obtain r w' where g: "parse_gpx_file rt fs (gpx_file wd) w = (r, w')"
    using parse_gpx_file_result by blast
  have u: "create_tcx rt fs wd w =
      (case lap_calories wd of
         Inl e \<Rightarrow> (Inl e, w)
       | Inr cal \<Rightarrow>
           (case lap_heart_rate wd of
              Inl e \<Rightarrow> (Inl e, w)
            | Inr hrs \<Rightarrow>
                (case r of
                   Inl e \<Rightarrow> (Inl e, w')
                 | Inr tps \<Rightarrow>
                     (case lap_track rt wd tps of
                        Inl e \<Rightarrow> (Inl e, w')
                      | Inr trk \<Rightarrow> (Inr (tcx_document rt wd (cal @ hrs @ trk)), w')))))"
    by (simp add: create_tcx_def lap_calories_def lap_heart_rate_def lap_track_def
        tcx_document_def lap_distance_def g io_bind_def io_lift_def io_return_def
        split: sum.splits)
  from assms show ?thesis
    unfolding u using g by (auto split: sum.splits)
qed

lemma create_tcx_no_hr_shape:
  assumes "parse_gpx_file rt fs (gpx_file wd) w = (r, w')"
  shows "create_tcx_no_hr rt fs wd w =
         (case lap_calories wd of
            Inl e \<Rightarrow> (Inl e, w)
          | Inr cal \<Rightarrow>
              (case r of
                 Inl e \<Rightarrow> (Inl e, w')
               | Inr tps \<Rightarrow> (Inr (tcx_document rt wd (cal @ lap_track_no_hr rt tps)), w')))"
  by (simp add: create_tcx_no_hr_def lap_calories_def lap_track_no_hr_def
      tcx_document_def lap_distance_def assms io_bind_def io_lift_def io_return_def
      split: sum.splits)

lemma create_tcx_no_hr_Inr:
  assumes "fst (create_tcx_no_hr rt fs wd w) = Inr doc"
  shows "\<exists>cal tps. lap_calories wd = Inr cal
           \<and> doc = tcx_document rt wd (cal @ lap_track_no_hr rt tps)"
proof -
  obtain r w' where g: "parse_gpx_file rt fs (gpx_file wd) w = (r, w')"
    using parse_gpx_file_result by blast
  from assms show ?thesis
    unfolding create_tcx_no_hr_shape [OF g] by (auto split: sum.splits)
qed

lemma lap_calories_elems:
  assumes "lap_calories wd = Inr cal"
  shows "(cal = [] \<and> \<not> truthy (calories wd))
       \<or> (\<exists>s. cal = [text_elem ''Calories'' s] \<and> truthy (calories wd))"
  using assms
  by (auto simp: lap_calories_def truthy_def float_truthy_def result_bind_Inr
      split: option.splits if_splits)

lemma lap_heart_rate_elems:
  assumes "lap_heart_rate wd = Inr hrs"
  shows "(hrs = [] \<and> heart_rate wd = None)
       \<or> (\<exists>s t. hrs = [value_elem ''AverageHeartRateBpm'' s, value_elem ''MaximumHeartRateBpm'' t]
                \<and> heart_rate wd \<noteq> None)"
  using assms
  by (auto simp: lap_heart_rate_def result_bind_Inr split: option.splits)

lemma lap_distance_elems:
  "(lap_distance rt wd = [] \<and> \<not> truthy (distance wd))
   \<or> (\<exists>d. distance wd = Some d \<and> d \<noteq> Finite 0
          \<and> lap_distance rt wd = [text_elem ''DistanceMeters'' (str_of_float rt (float_mul d 1000))]
          \<and> truthy (distance wd))"
  by (auto simp: lap_distance_def truthy_def float_truthy_def split: option.splits)

lemma lap_track_elems:
  assumes "lap_track rt wd tps = Inr trk"
  shows "(trk = [] \<and> tps = [])
       \<or> (\<exists>track. trk = [Element ''Track'' [] None track] \<and> tps \<noteq> []
              \<and> track_loop rt wd tps [] = Inr track)"
  using assms by (auto simp: lap_track_def result_bind_Inr split: if_splits)

text \<open>
  C9. Whenever the heart-rate builder produces a document, the builder without heart rate
  produces, on the same record and track file, that document with its heart-rate
  elements removed (the lap's average and maximum and the value on each track point),
  and prints the same diagnostics.
\<close>

theorem create_tcx_no_hr_refines:
  assumes "fst (create_tcx rt fs wd w) = Inr doc"
  shows "create_tcx_no_hr rt fs wd w = (Inr (remove_heart_rate doc), snd (create_tcx rt fs wd w))"
proof -
  from create_tcx_shape [OF assms] obtain cal hrs tps trk w' where
    cal: "lap_calories wd = Inr cal" and hrs: "lap_heart_rate wd = Inr hrs"
    and g: "parse_gpx_file rt fs (gpx_file wd) w = (Inr tps, w')"
    and trk: "lap_track rt wd tps = Inr trk"
    and doc: "doc = tcx_document rt wd (cal @ hrs @ trk)"
    and c: "create_tcx rt fs wd w = (Inr doc, w')"
    by blast
  from create_tcx_no_hr_shape [OF g] cal
  have n: "create_tcx_no_hr rt fs wd w
           = (Inr (tcx_document rt wd (cal @ lap_track_no_hr rt tps)), w')"
    by simp
  let ?keep = "filter (\<lambda>c. tag c \<notin> set heart_rate_tags)"
  from lap_calories_elems [OF cal] have cal': "map remove_heart_rate (?keep cal) = cal"
    by (auto simp: text_elem_def heart_rate_tags_def)
  from lap_heart_rate_elems [OF hrs] have hrs': "?keep hrs = []"
    by (auto simp: value_elem_def heart_rate_tags_def)
  from lap_distance_elems [of rt wd]
  have dist: "map remove_heart_rate (?keep (lap_distance rt wd)) = lap_distance rt wd"
    by (auto simp: text_elem_def heart_rate_tags_def)
  have trk': "map remove_heart_rate (?keep trk) = lap_track_no_hr rt tps"
  proof -
    from lap_track_elems [OF trk] show ?thesis
    proof
      assume "trk = [] \<and> tps = []"
      then show ?thesis by (simp add: lap_track_no_hr_def)
    next
      assume "\<exists>track. trk = [Element ''Track'' [] None track] \<and> tps \<noteq> []
                \<and> track_loop rt wd tps [] = Inr track"
      then obtain track where t: "trk = [Element ''Track'' [] None track]" "tps \<noteq> []"
        and tl: "track_loop rt wd tps [] = Inr track"
        by blast
      from track_loop_tags [OF tl] have "?keep track = track"
        by (simp add: keep_trackpoints)
      with track_loop_remove [OF tl] t show ?thesis
        by (simp add: lap_track_no_hr_def heart_rate_tags_def)
    qed
  qed
  have "remove_heart_rate doc = tcx_document rt wd (cal @ lap_track_no_hr rt tps)"
    unfolding doc tcx_document_def
    by (simp add: cal' hrs' trk' dist)
       (simp add: heart_rate_tags_def text_elem_def creator_def)
  with c n show ?thesis by simp
qed

theorem create_tcx_no_hr_refines_witness:
  "fst (create_tcx sample_runtime (sample_fs sample_gpx) running_workout empty_world)
     = Inr running_tcx
   \<and> create_tcx_no_hr sample_runtime (sample_fs sample_gpx) running_workout empty_world
       = (Inr (remove_heart_rate running_tcx),
          snd (create_tcx sample_runtime (sample_fs sample_gpx) running_workout empty_world))
   \<and> remove_heart_rate running_tcx \<noteq> running_tcx"
proof -
  have a: "fst (create_tcx sample_runtime (sample_fs sample_gpx) running_workout empty_world)
             = Inr running_tcx"
    by (simp add: running_tcx_built)
  have b: "remove_heart_rate running_tcx \<noteq> running_tcx"
    by (simp add: running_tcx_def heart_rate_tags_def)
  from a b create_tcx_no_hr_refines [OF a] show ?thesis by blast
qed

lemma lap_elems_document:
  "lap_elems t (tcx_document rt wd lap_rest)
   = filter (\<lambda>c. tag c = t)
       ([text_elem ''TotalTimeSeconds'' (str_of_float rt (float_mul (duration_minutes wd) 60))]
        @ lap_distance rt wd @ lap_rest)"
  by (simp add: lap_elems_def laps_def step_def tcx_document_def text_elem_def creator_def)

lemma track_points_document:
  "track_points (tcx_document rt wd lap_rest)
   = step ''Trackpoint''
       (filter (\<lambda>c. tag c = ''Track'')
          ([text_elem ''TotalTimeSeconds'' (str_of_float rt (float_mul (duration_minutes wd) 60))]
           @ lap_distance rt wd @ lap_rest))"
  by (simp add: track_points_def laps_def step_def tcx_document_def text_elem_def creator_def)

lemma track_loop_altitude:
  assumes "track_loop rt wd tps acc = Inr trk"
    and "\<forall>e \<in> set acc. step ''AltitudeMeters'' [e] \<noteq> []"
  shows "\<forall>e \<in> set trk. step ''AltitudeMeters'' [e] \<noteq> []"
  using assms
proof (induction tps arbitrary: acc)
  case Nil
  then show ?case by simp
next
  case (Cons tp tps)
  from Cons.prems(1) obtain hr_elem where
    "track_loop rt wd tps
              (acc @ [Element ''Trackpoint'' [] None
                 ([text_elem ''Time'' (strftime_tcx (time tp)),
                   Element ''Position'' [] None
                     [text_elem ''LatitudeDegrees'' (str_of_float rt (lat tp)),
                      text_elem ''LongitudeDegrees'' (str_of_float rt (lon tp))],
                   text_elem ''AltitudeMeters'' (str_num rt (elevation tp))]
                  @ hr_elem)]) = Inr trk"
    by (auto simp: result_bind_Inr)
  from Cons.IH [OF this] Cons.prems(2) show ?case
    by (simp add: step_def text_elem_def)
qed

lemma track_loop_no_hr_altitude:
  assumes "\<forall>e \<in> set acc. step ''AltitudeMeters'' [e] \<noteq> []"
  shows "\<forall>e \<in> set (track_loop_no_hr rt tps acc). step ''AltitudeMeters'' [e] \<noteq> []"
  using assms
proof (induction tps arbitrary: acc)
  case Nil
  then show ?case by simp
next
  case (Cons tp tps)
  have "\<forall>e \<in> set (acc @ [Element ''Trackpoint'' [] None
           [text_elem ''Time'' (strftime_tcx (time tp)),
            Element ''Position'' [] None
              [text_elem ''LatitudeDegrees'' (str_of_float rt (lat tp)),
               text_elem ''LongitudeDegrees'' (str_of_float rt (lon tp))],
            text_elem ''AltitudeMeters'' (str_num rt (elevation tp))]]).
          step ''AltitudeMeters'' [e] \<noteq> []"
    using Cons.prems by (simp add: step_def text_elem_def)
  from Cons.IH [OF this] show ?case by simp
qed

lemma elem_tags:
  "tag (text_elem a s) = a" "tag (value_elem a s) = a"
  by (simp_all add: text_elem_def value_elem_def)

lemma lap_part_filters:
  "filter (\<lambda>c. tag c = t) [text_elem a s] = (if a = t then [text_elem a s] else [])"
  "filter (\<lambda>c. tag c = t) [value_elem a s] = (if a = t then [value_elem a s] else [])"
  "filter (\<lambda>c. tag c = t) [Element a [] None cs] = (if a = t then [Element a [] None cs] else [])"
  by (simp_all add: text_elem_def value_elem_def)

lemmas lap_filters = lap_part_filters elem_tags

text \<open>
  C5 (as amended). In every document a builder produces, the lap has a distance element
  exactly when the record's distance is present and not zero (with the text of distance
  times 1000) and a calories element exactly when calories is present and not zero; the
  heart-rate builder gives the lap its average and maximum heart-rate elements exactly
  when \<open>heart_rate\<close> is present, the builder without heart rate never does; and every track
  point carries an altitude element.
\<close>

theorem lap_fields_conditional:
  "(\<forall>doc. fst (create_tcx rt fs wd w) = Inr doc \<longrightarrow>
       (lap_elems ''DistanceMeters'' doc \<noteq> [] \<longleftrightarrow> truthy (distance wd))
     \<and> (\<forall>d. distance wd = Some d \<and> d \<noteq> Finite 0 \<longrightarrow>
           lap_elems ''DistanceMeters'' doc
           = [text_elem ''DistanceMeters'' (str_of_float rt (float_mul d 1000))])
     \<and> (lap_elems ''Calories'' doc \<noteq> [] \<longleftrightarrow> truthy (calories wd))
     \<and> (lap_elems ''AverageHeartRateBpm'' doc \<noteq> [] \<longleftrightarrow> heart_rate wd \<noteq> None)
     \<and> (lap_elems ''MaximumHeartRateBpm'' doc \<noteq> [] \<longleftrightarrow> heart_rate wd \<noteq> None)
     \<and> (\<forall>tp \<in> set (track_points doc). step ''AltitudeMeters'' [tp] \<noteq> []))
   \<and> (\<forall>doc. fst (create_tcx_no_hr rt fs wd w) = Inr doc \<longrightarrow>
       (lap_elems ''DistanceMeters'' doc \<noteq> [] \<longleftrightarrow> truthy (distance wd))
     \<and> (\<forall>d. distance wd = Some d \<and> d \<noteq> Finite 0 \<longrightarrow>
           lap_elems ''DistanceMeters'' doc
           = [text_elem ''DistanceMeters'' (str_of_float rt (float_mul d 1000))])
     \<and> (lap_elems ''Calories'' doc \<noteq> [] \<longleftrightarrow> truthy (calories wd))
     \<and> lap_elems ''AverageHeartRateBpm'' doc = []
     \<and> lap_elems ''MaximumHeartRateBpm'' doc = []
     \<and> (\<forall>tp \<in> set (track_points doc). step ''AltitudeMeters'' [tp] \<noteq> []))"
proof (intro conjI allI impI ballI)
  fix doc assume a: "fst (create_tcx rt fs wd w) = Inr doc"
  from create_tcx_shape [OF a] obtain cal hrs tps trk where
    cal: "lap_calories wd = Inr cal" and hrs: "lap_heart_rate wd = Inr hrs"
    and trk: "lap_track rt wd tps = Inr trk"
    and doc: "doc = tcx_document rt wd (cal @ hrs @ trk)"
    by blast
  note parts = lap_distance_elems [of rt wd] lap_calories_elems [OF cal]
    lap_heart_rate_elems [OF hrs] lap_track_elems [OF trk]
  from parts show "lap_elems ''DistanceMeters'' doc \<noteq> [] \<longleftrightarrow> truthy (distance wd)"
    unfolding doc lap_elems_document by (auto simp: lap_filters)
  from parts show "lap_elems ''Calories'' doc \<noteq> [] \<longleftrightarrow> truthy (calories wd)"
    unfolding doc lap_elems_document by (auto simp: lap_filters)
  from parts show "lap_elems ''AverageHeartRateBpm'' doc \<noteq> [] \<longleftrightarrow> heart_rate wd \<noteq> None"
    unfolding doc lap_elems_document by (auto simp: lap_filters)
  from parts show "lap_elems ''MaximumHeartRateBpm'' doc \<noteq> [] \<longleftrightarrow> heart_rate wd \<noteq> None"
    unfolding doc lap_elems_document by (auto simp: lap_filters)
  { fix d assume "distance wd = Some d \<and> d \<noteq> Finite 0"
    with parts show "lap_elems ''DistanceMeters'' doc
           = [text_elem ''DistanceMeters'' (str_of_float rt (float_mul d 1000))]"
      unfolding doc lap_elems_document by (auto simp: lap_filters truthy_def) }
  { fix tp assume t: "tp \<in> set (track_points doc)"
    from parts(1-3) have "filter (\<lambda>c. tag c = ''Track'')
          ([text_elem ''TotalTimeSeconds'' (str_of_float rt (float_mul (duration_minutes wd) 60))]
           @ lap_distance rt wd @ cal @ hrs @ trk) = filter (\<lambda>c. tag c = ''Track'') trk"
      by (auto simp: lap_filters)
    with t have t': "tp \<in> set (step ''Trackpoint'' (filter (\<lambda>c. tag c = ''Track'') trk))"
      unfolding doc track_points_document by simp
    from parts(4) show "step ''AltitudeMeters'' [tp] \<noteq> []"
    proof
      assume "trk = [] \<and> tps = []"
      with t' show ?thesis by (simp add: step_def)
    next
      assume "\<exists>track. trk = [Element ''Track'' [] None track] \<and> tps \<noteq> []
                \<and> track_loop rt wd tps [] = Inr track"
      then obtain track where tr: "trk = [Element ''Track'' [] None track]"
        and tl: "track_loop rt wd tps [] = Inr track"
        by blast
      from t' tr have "tp \<in> set track" by (simp add: step_def)
      with track_loop_altitude [OF tl] show ?thesis by simp
    qed }
next
  fix doc assume a: "fst (create_tcx_no_hr rt fs wd w) = Inr doc"
  from create_tcx_no_hr_Inr [OF a] obtain cal tps where
    cal: "lap_calories wd = Inr cal"
    and doc: "doc = tcx_document rt wd (cal @ lap_track_no_hr rt tps)"
    by blast
  have trk: "lap_track_no_hr rt tps = []
      \<or> lap_track_no_hr rt tps = [Element ''Track'' [] None (track_loop_no_hr rt tps [])]"
    by (simp add: lap_track_no_hr_def)
  note parts = lap_distance_elems [of rt wd] lap_calories_elems [OF cal] trk
  from parts show "lap_elems ''DistanceMeters'' doc \<noteq> [] \<longleftrightarrow> truthy (distance wd)"
    unfolding doc lap_elems_document by (auto simp: lap_filters)
  from parts show "lap_elems ''Calories'' doc \<noteq> [] \<longleftrightarrow> truthy (calories wd)"
    unfolding doc lap_elems_document by (auto simp: lap_filters)
  from parts show "lap_elems ''AverageHeartRateBpm'' doc = []"
    unfolding doc lap_elems_document by (auto simp: lap_filters)
  from parts show "lap_elems ''MaximumHeartRateBpm'' doc = []"
    unfolding doc lap_elems_document by (auto simp: lap_filters)
  { fix d assume "distance wd = Some d \<and> d \<noteq> Finite 0"
    with parts show "lap_elems ''DistanceMeters'' doc
           = [text_elem ''DistanceMeters'' (str_of_float rt (float_mul d 1000))]"
      unfolding doc lap_elems_document by (auto simp: lap_filters truthy_def) }
  { fix tp assume t: "tp \<in> set (track_points doc)"
    from parts(1-2) have "filter (\<lambda>c. tag c = ''Track'')
          ([text_elem ''TotalTimeSeconds'' (str_of_float rt (float_mul (duration_minutes wd) 60))]
           @ lap_distance rt wd @ cal @ lap_track_no_hr rt tps)
          = filter (\<lambda>c. tag c = ''Track'') (lap_track_no_hr rt tps)"
      by (auto simp: lap_filters)
    with t have t': "tp \<in> set (step ''Trackpoint''
                       (filter (\<lambda>c. tag c = ''Track'') (lap_track_no_hr rt tps)))"
      unfolding doc track_points_document by simp
    from trk show "step ''AltitudeMeters'' [tp] \<noteq> []"
    proof
      assume "lap_track_no_hr rt tps = []"
      with t' show ?thesis by (simp add: step_def)
    next
      assume "lap_track_no_hr rt tps = [Element ''Track'' [] None (track_loop_no_hr rt tps [])]"
      with t' have "tp \<in> set (track_loop_no_hr rt tps [])" by (simp add: step_def)
      with track_loop_no_hr_altitude [of "[]" rt tps] show ?thesis by simp
    qed }
qed

theorem lap_fields_conditional_witness:
  "fst (create_tcx sample_runtime (sample_fs sample_gpx) running_workout empty_world)
     = Inr running_tcx
   \<and> distance running_workout = Some (Finite 5) \<and> Finite 5 \<noteq> Finite 0
   \<and> lap_elems ''DistanceMeters'' running_tcx
       = [text_elem ''DistanceMeters'' (str_of_float sample_runtime (float_mul (Finite 5) 1000))]
   \<and> str_of_float sample_runtime (float_mul (Finite 5) 1000) = ''5000.0''
   \<and> truthy (calories running_workout) \<and> lap_elems ''Calories'' running_tcx \<noteq> []
   \<and> heart_rate running_workout \<noteq> None
   \<and> lap_elems ''AverageHeartRateBpm'' running_tcx \<noteq> []
   \<and> lap_elems ''MaximumHeartRateBpm'' running_tcx \<noteq> []
   \<and> length (track_points running_tcx) = 2
   \<and> list_all (\<lambda>tp. step ''AltitudeMeters'' [tp] \<noteq> []) (track_points running_tcx)
   \<and> fst (create_tcx_no_hr sample_runtime (sample_fs sample_gpx) running_workout empty_world)
       = Inr (remove_heart_rate running_tcx)
   \<and> lap_elems ''AverageHeartRateBpm'' (remove_heart_rate running_tcx) = []
   \<and> lap_elems ''MaximumHeartRateBpm'' (remove_heart_rate running_tcx) = []
   \<and> lap_elems ''Calories'' (remove_heart_rate running_tcx) \<noteq> []"
proof -
  have a: "fst (create_tcx sample_runtime (sample_fs sample_gpx) running_workout empty_world)
             = Inr running_tcx"
    by (simp add: running_tcx_built)
  have b: "fst (create_tcx_no_hr sample_runtime (sample_fs sample_gpx) running_workout empty_world)
             = Inr (remove_heart_rate running_tcx)"
    by (simp add: running_tcx_no_hr_built)
  have c: "distance running_workout = Some (Finite 5) \<and> Finite 5 \<noteq> Finite 0"
    by (simp add: running_workout_def)
  have d: "truthy (calories running_workout)" "heart_rate running_workout \<noteq> None"
    by (simp_all add: running_workout_def truthy_def)
  have e: "str_of_float sample_runtime (float_mul (Finite 5) 1000) = ''5000.0''"
    by (simp add: eval_defs)
  have f: "length (track_points running_tcx) = 2"
    by (simp add: track_points_def laps_def step_def running_tcx_def creator_def)
  note th = lap_fields_conditional [of sample_runtime "sample_fs sample_gpx" running_workout
      empty_world]
  from th a have g: "(lap_elems ''DistanceMeters'' running_tcx \<noteq> []
        \<longleftrightarrow> truthy (distance running_workout))
     \<and> (\<forall>d. distance running_workout = Some d \<and> d \<noteq> Finite 0 \<longrightarrow>
           lap_elems ''DistanceMeters'' running_tcx
           = [text_elem ''DistanceMeters'' (str_of_float sample_runtime (float_mul d 1000))])
     \<and> (lap_elems ''Calories'' running_tcx \<noteq> [] \<longleftrightarrow> truthy (calories running_workout))
     \<and> (lap_elems ''AverageHeartRateBpm'' running_tcx \<noteq> []
          \<longleftrightarrow> heart_rate running_workout \<noteq> None)
     \<and> (lap_elems ''MaximumHeartRateBpm'' running_tcx \<noteq> []
          \<longleftrightarrow> heart_rate running_workout \<noteq> None)
     \<and> (\<forall>tp \<in> set (track_points running_tcx). step ''AltitudeMeters'' [tp] \<noteq> [])"
    by blast
  from th b have h: "(lap_elems ''Calories'' (remove_heart_rate running_tcx) \<noteq> []
          \<longleftrightarrow> truthy (calories running_workout))
     \<and> lap_elems ''AverageHeartRateBpm'' (remove_heart_rate running_tcx) = []
     \<and> lap_elems ''MaximumHeartRateBpm'' (remove_heart_rate running_tcx) = []"
    by blast
  from g have i: "list_all (\<lambda>tp. step ''AltitudeMeters'' [tp] \<noteq> []) (track_points running_tcx)"
    by (simp add: list_all_iff)
  from g c have j: "lap_elems ''DistanceMeters'' running_tcx
       = [text_elem ''DistanceMeters'' (str_of_float sample_runtime (float_mul (Finite 5) 1000))]"
    by blast
  from a b c d e f g h i j show ?thesis by blast
qed

text \<open>
  As stated the claim fails: a distance statistic with sum 0 makes the record's distance
  present (\<open>0.0\<close>), and \<^verbatim>\<open>if workout_data['distance']:\<close> is then false, so neither builder
  emits a distance element.
\<close>

theorem lap_fields_counterexample:
  "extract_workout_data sample_runtime sample_converter zero_distance_elem
     = Inr (Some zero_distance_workout)
   \<and> distance zero_distance_workout = Some (Finite 0)
   \<and> fst (create_tcx sample_runtime (sample_fs sample_gpx) zero_distance_workout empty_world)
       = Inr zero_distance_tcx
   \<and> fst (create_tcx_no_hr sample_runtime (sample_fs sample_gpx) zero_distance_workout empty_world)
       = Inr zero_distance_tcx
   \<and> lap_elems ''DistanceMeters'' zero_distance_tcx = []"
proof -
  have "distance zero_distance_workout = Some (Finite 0)"
    by (simp add: zero_distance_workout_def)
  then show ?thesis by (simp add: zero_distance_built)
qed

subsection \<open>The conversion run\<close>























end
